theory Spec2Isabelle
  imports Main "HOL-Library.AList" "HOL-Library.Char_ord" "HOL-Library.List_Lexorder"
begin

section \<open>The TTL cache of the travel planner\<close>

text \<open>
  The cache lives in SQLite tables whose primary key is \<open>cache_key\<close>.  A table is
  modelled as an association list from the key to the remaining columns; the primary
  key constraint is the distinctness of the keys.  A \<open>datetime\<close> is an integer
  number of microseconds (the resolution of Python's \<open>datetime\<close>), so that the SQL
  comparisons \<open>expires_at > ?\<close> and \<open>expires_at < ?\<close> are the comparisons of
  the integers.  The column \<open>response_data\<close> holds \<open>json.dumps\<close> of the
  response and every read applies \<open>json.loads\<close> to it; the model keeps the JSON
  document itself in the column (type variable \<open>'v\<close>).  Every function that calls
  \<open>datetime.now()\<close> takes the clock reading as an argument.
\<close>

type_synonym timestamp = int

text \<open>
  What the code raises is a value of \<open>exn\<close>: errors of \<open>sqlite3\<close>,
  \<open>requests.exceptions.RequestException\<close>, \<open>KeyError\<close>, and the
  \<open>OverflowError\<close> of the date arithmetic.
\<close>

datatype exn = SqliteError string | RequestException string | KeyError string | OverflowError

text \<open>
  A \<open>datetime\<close> lies between \<open>datetime.min\<close> (year 1) and \<open>datetime.max\<close>
  (the last microsecond of year 9999); time is counted from \<open>datetime.min\<close>, and
  \<open>datetime.max\<close> is the microsecond before the end of day 3652059.
\<close>

definition datetime_max :: timestamp where
  "datetime_max = 3652059 * 86400000000 - 1"

definition timedelta_hours :: "int \<Rightarrow> int" where
  "timedelta_hours h = h * 3600000000"

text \<open>
  \<open>datetime.now() + timedelta(hours=h)\<close>.  \<open>timedelta\<close> raises
  \<open>OverflowError\<close> when its number of days, \<open>h // 24\<close>, has a magnitude above
  999999999, and the sum raises \<open>OverflowError\<close> when it leaves the range of
  \<open>datetime\<close>.
\<close>

definition expires_after :: "timestamp \<Rightarrow> int \<Rightarrow> exn + timestamp" where
  "expires_after now h =
     (if h div 24 < - 999999999 \<or> 999999999 < h div 24 then Inl OverflowError
      else if 0 \<le> now + timedelta_hours h \<and> now + timedelta_hours h \<le> datetime_max
      then Inr (now + timedelta_hours h)
      else Inl OverflowError)"

subsection \<open>\<open>database/dual_db_manager.py\<close>: the tables of \<open>cache.db\<close>\<close>

record ('p, 'v) api_cache_row =
  api_name :: string
  endpoint :: string
  params :: 'p
  response_data :: 'v
  created_at :: timestamp
  expires_at :: timestamp
  hit_count :: int

record web_cache_row =
  url :: string
  content :: string
  content_type :: string
  web_created_at :: timestamp
  web_expires_at :: timestamp
  web_hit_count :: int

record ('p, 'v) cache_db =
  api_cache :: "(string \<times> ('p, 'v) api_cache_row) list"
  web_cache :: "(string \<times> web_cache_row) list"

text \<open>
  \<open>get_api_cache\<close>: \<open>SELECT response_data, expires_at FROM api_cache WHERE
  cache_key = ? AND expires_at > ?\<close> with the clock reading; when a row is found,
  \<open>UPDATE api_cache SET hit_count = hit_count + 1 WHERE cache_key = ?\<close> and the
  decoded response is returned, otherwise \<open>None\<close>.
\<close>

definition get_api_cache ::
  "('p, 'v) cache_db \<Rightarrow> string \<Rightarrow> timestamp \<Rightarrow> ('p, 'v) cache_db \<times> 'v option" where
  "get_api_cache db cache_key now =
     (case map_of (api_cache db) cache_key of
        None \<Rightarrow> (db, None)
      | Some r \<Rightarrow>
          if expires_at r > now
          then (db\<lparr>api_cache :=
                     AList.update cache_key (r\<lparr>hit_count := hit_count r + 1\<rparr>) (api_cache db)\<rparr>,
                Some (response_data r))
          else (db, None))"

text \<open>
  \<open>set_api_cache\<close>: \<open>INSERT OR REPLACE\<close> of the whole row.  The column
  \<open>hit_count\<close> is not in the column list, so the new row gets its default 0.  The
  source reads the clock twice: \<open>now\<close> for \<open>expires_at\<close> and, afterwards,
  \<open>now'\<close> for \<open>created_at\<close>.  The computation of \<open>expires_at\<close> has no
  handler: its \<open>OverflowError\<close> leaves the function, and nothing is stored.
\<close>

definition set_api_cache ::
  "('p, 'v) cache_db \<Rightarrow> string \<Rightarrow> string \<Rightarrow> string \<Rightarrow> 'p \<Rightarrow> 'v \<Rightarrow> int \<Rightarrow>
     timestamp \<Rightarrow> timestamp \<Rightarrow> exn + ('p, 'v) cache_db" where
  "set_api_cache db cache_key an ep ps resp cache_hours now now' =
     (case expires_after now cache_hours of
        Inl e \<Rightarrow> Inl e
      | Inr expiry \<Rightarrow>
          Inr (db\<lparr>api_cache :=
                    AList.update cache_key
                      \<lparr>api_name = an, endpoint = ep, params = ps, response_data = resp,
                       created_at = now', expires_at = expiry, hit_count = 0\<rparr>
                      (api_cache db)\<rparr>))"

text \<open>
  \<open>get_web_cache\<close> and \<open>set_web_cache\<close>: the same on the table \<open>web_cache\<close>,
  whose key is \<open>hashlib.md5(url.encode()).hexdigest()\<close>; the hash is the parameter
  \<open>md5\<close>.  The column \<open>content_type\<close> gets its default \<open>'html'\<close>.
\<close>

definition get_web_cache ::
  "(string \<Rightarrow> string) \<Rightarrow> ('p, 'v) cache_db \<Rightarrow> string \<Rightarrow> timestamp \<Rightarrow>
     ('p, 'v) cache_db \<times> string option" where
  "get_web_cache md5 db u now =
     (let cache_key = md5 u
      in case map_of (web_cache db) cache_key of
           None \<Rightarrow> (db, None)
         | Some r \<Rightarrow>
             if web_expires_at r > now
             then (db\<lparr>web_cache :=
                        AList.update cache_key (r\<lparr>web_hit_count := web_hit_count r + 1\<rparr>)
                          (web_cache db)\<rparr>,
                   Some (content r))
             else (db, None))"

definition set_web_cache ::
  "(string \<Rightarrow> string) \<Rightarrow> ('p, 'v) cache_db \<Rightarrow> string \<Rightarrow> string \<Rightarrow> int \<Rightarrow>
     timestamp \<Rightarrow> timestamp \<Rightarrow> exn + ('p, 'v) cache_db" where
  "set_web_cache md5 db u page cache_hours now now' =
     (case expires_after now cache_hours of
        Inl e \<Rightarrow> Inl e
      | Inr expiry \<Rightarrow>
          Inr (db\<lparr>web_cache :=
                    AList.update (md5 u)
                      \<lparr>url = u, content = page, content_type = ''html'', web_created_at = now',
                       web_expires_at = expiry, web_hit_count = 0\<rparr>
                      (web_cache db)\<rparr>))"

text \<open>
  \<open>clear_expired_cache\<close>: \<open>DELETE FROM api_cache WHERE expires_at < ?\<close>, then the
  same on \<open>web_cache\<close> with a second clock reading; the result holds the two
  \<open>rowcount\<close>s and their sum.
\<close>

record deleted_counts =
  api_cache_deleted :: nat
  web_cache_deleted :: nat
  total_deleted :: nat

definition clear_expired_cache ::
  "('p, 'v) cache_db \<Rightarrow> timestamp \<Rightarrow> timestamp \<Rightarrow> ('p, 'v) cache_db \<times> deleted_counts" where
  "clear_expired_cache db now now' =
     (let api_deleted = length (filter (\<lambda>(k, r). expires_at r < now) (api_cache db));
          web_deleted = length (filter (\<lambda>(k, r). web_expires_at r < now') (web_cache db))
      in (db\<lparr>api_cache := filter (\<lambda>(k, r). \<not> expires_at r < now) (api_cache db),
              web_cache := filter (\<lambda>(k, r). \<not> web_expires_at r < now') (web_cache db)\<rparr>,
          \<lparr>api_cache_deleted = api_deleted, web_cache_deleted = web_deleted,
           total_deleted = api_deleted + web_deleted\<rparr>))"

subsection \<open>\<open>data_collection/api_collector.py\<close>: the table of \<open>api_cache.db\<close>\<close>

record 'v cached_response =
  ac_api_name :: string
  ac_endpoint :: string
  ac_response_data :: 'v
  ac_created_at :: timestamp
  ac_expires_at :: timestamp

type_synonym 'v api_table = "(string \<times> 'v cached_response) list"

text \<open>\<open>_get_cached_response\<close>: the same \<open>SELECT\<close>, without a hit counter.\<close>

definition get_cached_response :: "'v api_table \<Rightarrow> string \<Rightarrow> timestamp \<Rightarrow> 'v option" where
  "get_cached_response tbl cache_key now =
     (case map_of tbl cache_key of
        None \<Rightarrow> None
      | Some r \<Rightarrow> if ac_expires_at r > now then Some (ac_response_data r) else None)"

text \<open>
  \<open>_cache_response\<close>: \<open>expires_at\<close> from the first clock reading, \<open>created_at\<close>
  from the second, \<open>INSERT OR REPLACE\<close>; the \<open>OverflowError\<close> of the first
  leaves the function.
\<close>

definition cache_response ::
  "'v api_table \<Rightarrow> string \<Rightarrow> string \<Rightarrow> string \<Rightarrow> 'v \<Rightarrow> int \<Rightarrow> timestamp \<Rightarrow> timestamp \<Rightarrow>
     exn + 'v api_table" where
  "cache_response tbl cache_key an ep resp cache_duration_hours now now' =
     (case expires_after now cache_duration_hours of
        Inl e \<Rightarrow> Inl e
      | Inr expiry \<Rightarrow>
          Inr (AList.update cache_key
                 \<lparr>ac_api_name = an, ac_endpoint = ep, ac_response_data = resp,
                  ac_created_at = now', ac_expires_at = expiry\<rparr>
                 tbl))"

text \<open>
  \<open>APICollector.clear_expired_cache\<close>: \<open>DELETE FROM api_cache WHERE expires_at < ?\<close>
  and the \<open>rowcount\<close>.
\<close>

definition collector_clear_expired_cache :: "'v api_table \<Rightarrow> timestamp \<Rightarrow> 'v api_table \<times> nat" where
  "collector_clear_expired_cache tbl now =
     (filter (\<lambda>(k, r). \<not> ac_expires_at r < now) tbl,
      length (filter (\<lambda>(k, r). ac_expires_at r < now) tbl))"

text \<open>A database and a collector table with one entry that expires at time 100.\<close>

definition example_row :: "(unit, string) api_cache_row" where
  "example_row =
     \<lparr>api_name = ''openweather'', endpoint = ''weather'', params = (),
      response_data = ''sunny'', created_at = 0, expires_at = 100, hit_count = 7\<rparr>"

definition example_db :: "(unit, string) cache_db" where
  "example_db = \<lparr>api_cache = [(''k1'', example_row)], web_cache = []\<rparr>"

definition example_cached :: "string cached_response" where
  "example_cached =
     \<lparr>ac_api_name = ''openweather'', ac_endpoint = ''weather'',
      ac_response_data = ''sunny'', ac_created_at = 0, ac_expires_at = 100\<rparr>"

section \<open>The cache key of the API collector\<close>

text \<open>
  \<open>_generate_cache_key\<close> hashes the text
  \<open>f"{api_name}:{endpoint}:{json.dumps(params, sort_keys=True)}"\<close>.  A Python
  \<open>dict\<close> with string keys is an association list in insertion order whose keys are
  distinct.  \<open>json.dumps\<close> with \<open>sort_keys=True\<close> writes the items of every
  dictionary in the order of their keys (strings are compared character by character,
  which is the order of \<open>HOL-Library.List_Lexorder\<close> on the bytes of the UTF-8
  text), with the separators \<open>", "\<close> and \<open>": "\<close>.  The encoder of string
  literals (\<open>json.encoder.encode_basestring_ascii\<close>) and \<open>hashlib.md5(...).hexdigest()\<close>
  are library functions and are parameters of the model (\<open>enc\<close>, \<open>md5\<close>); floats
  are left out of the values.
\<close>

datatype json =
    JNull
  | JBool bool
  | JInt int
  | JStr string
  | JList "json list"
  | JDict "(string \<times> json) list"

fun join :: "string \<Rightarrow> string list \<Rightarrow> string" where
  "join sep [] = []"
| "join sep [x] = x"
| "join sep (x # y # ys) = x @ sep @ join sep (y # ys)"

definition digit_char :: "nat \<Rightarrow> char" where
  "digit_char d = ''0123456789'' ! d"

fun str_nat :: "nat \<Rightarrow> string" where
  "str_nat n = (if n < 10 then [digit_char n] else str_nat (n div 10) @ [digit_char (n mod 10)])"

definition str_int :: "int \<Rightarrow> string" where
  "str_int i = (if i < 0 then CHR ''-'' # str_nat (nat (- i)) else str_nat (nat i))"

fun dumps :: "(string \<Rightarrow> string) \<Rightarrow> json \<Rightarrow> string" where
  "dumps enc JNull = ''null''"
| "dumps enc (JBool b) = (if b then ''true'' else ''false'')"
| "dumps enc (JInt i) = str_int i"
| "dumps enc (JStr s) = enc s"
| "dumps enc (JList xs) = ''['' @ join '', '' (map (dumps enc) xs) @ '']''"
| "dumps enc (JDict kvs) =
     ''{'' @ join '', '' (map (\<lambda>(k, v). enc k @ '': '' @ dumps enc v) (sort_key fst kvs)) @ ''}''"

definition generate_cache_key ::
  "(string \<Rightarrow> string) \<Rightarrow> (string \<Rightarrow> string) \<Rightarrow> string \<Rightarrow> string \<Rightarrow> (string \<times> json) list \<Rightarrow> string" where
  "generate_cache_key md5 enc an ep ps = md5 (an @ '':'' @ ep @ '':'' @ dumps enc (JDict ps))"

text \<open>
  The parameters of the hotel search of \<open>collect_places_data\<close> in the order the
  source writes them, and the same dictionary built in another order; \<open>quoted\<close>
  is the string encoder on texts that need no escape.
\<close>

definition hotel_params :: "(string \<times> json) list" where
  "hotel_params =
     [(''query'', JStr ''hotels in Hue''), (''type'', JStr ''lodging''), (''radius'', JInt 5000)]"

definition hotel_params_reordered :: "(string \<times> json) list" where
  "hotel_params_reordered =
     [(''radius'', JInt 5000), (''query'', JStr ''hotels in Hue''), (''type'', JStr ''lodging'')]"

definition quoted :: "string \<Rightarrow> string" where
  "quoted s = CHR 0x22 # s @ [CHR 0x22]"

section \<open>The stages of the workflow graph\<close>

text \<open>
  \<open>multi_agent_system/langgraph_workflow.py\<close>, \<open>build_travel_workflow_graph\<close>.  The
  graph has ten nodes; the constructors of \<open>stage\<close> are the node names given to
  \<open>graph.add_node\<close>.
\<close>

datatype stage =
    api_collector
  | web_scraper
  | data_processor
  | recommendation
  | sentiment_analyzer
  | similarity_engine
  | price_predictor
  | planner
  | researcher
  | analytics_engine

text \<open>The name a stage passes to \<open>_mark_step\<close>.\<close>

fun stage_name :: "stage \<Rightarrow> string" where
  "stage_name api_collector = ''api_collector''"
| "stage_name web_scraper = ''web_scraper''"
| "stage_name data_processor = ''data_processor''"
| "stage_name recommendation = ''recommendation''"
| "stage_name sentiment_analyzer = ''sentiment_analyzer''"
| "stage_name similarity_engine = ''similarity_engine''"
| "stage_name price_predictor = ''price_predictor''"
| "stage_name planner = ''planner''"
| "stage_name researcher = ''researcher''"
| "stage_name analytics_engine = ''analytics_engine''"

text \<open>The tag in front of \<open>error: \<close> in the message a stage's handler appends.\<close>

fun error_label :: "stage \<Rightarrow> string" where
  "error_label api_collector = ''API Collector''"
| "error_label web_scraper = ''Web Scraper''"
| "error_label data_processor = ''Data Processor''"
| "error_label recommendation = ''Recommendation''"
| "error_label sentiment_analyzer = ''Sentiment Analyzer''"
| "error_label similarity_engine = ''Similarity Engine''"
| "error_label price_predictor = ''Price Predictor''"
| "error_label planner = ''Planner''"
| "error_label researcher = ''Researcher''"
| "error_label analytics_engine = ''Analytics Engine''"

text \<open>The key of \<open>TravelState\<close> a stage assigns when its body succeeds.\<close>

fun result_field :: "stage \<Rightarrow> string" where
  "result_field api_collector = ''collected_data''"
| "result_field web_scraper = ''scraped_data''"
| "result_field data_processor = ''processed_data''"
| "result_field recommendation = ''recommendations''"
| "result_field sentiment_analyzer = ''sentiment_analysis''"
| "result_field similarity_engine = ''similarity_results''"
| "result_field price_predictor = ''price_predictions''"
| "result_field planner = ''travel_plan''"
| "result_field researcher = ''research_insights''"
| "result_field analytics_engine = ''analytics_results''"

text \<open>
  \<open>TravelState\<close> is a \<open>TypedDict\<close> with \<open>total=False\<close>: every key may be
  absent.  The two tracking keys are components of their own; the input parameters and the
  stages' results are the map \<open>entries\<close>.
\<close>

record 'a travel_state =
  entries :: "string \<rightharpoonup> 'a"
  steps_completed :: "string list option"
  errors :: "string list option"

text \<open>\<open>list(state.get(key, []))\<close>\<close>

definition get_list :: "'b list option \<Rightarrow> 'b list" where
  "get_list v = (case v of None \<Rightarrow> [] | Some xs \<Rightarrow> xs)"

definition mark_step :: "string \<Rightarrow> 'a travel_state \<Rightarrow> 'a travel_state" where
  "mark_step step_name state =
     state\<lparr>steps_completed := Some (get_list (steps_completed state) @ [step_name])\<rparr>"

text \<open>
  The ten node functions have one shape: a \<open>try\<close> block that computes a value from
  the state, assigns it to the stage's key and returns \<open>_mark_step(name)(state)\<close>,
  and a handler \<open>except Exception as e\<close> that appends
  \<open>f"<label> error: {str(e)}"\<close> to a copy of \<open>errors\<close>, stores it and returns the
  state.  The computation in the \<open>try\<close> block is the parameter \<open>body\<close>:
  \<open>Inr v\<close> is the value assigned, \<open>Inl e\<close> is an exception whose \<open>str\<close> is
  \<open>e\<close>.  No body assigns any other key before it can raise.
\<close>

definition node ::
  "(stage \<Rightarrow> 'a travel_state \<Rightarrow> string + 'a) \<Rightarrow> stage \<Rightarrow> 'a travel_state \<Rightarrow> 'a travel_state" where
  "node body s state =
     (case body s state of
        Inr v \<Rightarrow> mark_step (stage_name s) (state\<lparr>entries := (entries state)(result_field s \<mapsto> v)\<rparr>)
      | Inl e \<Rightarrow> state\<lparr>errors := Some (get_list (errors state) @ [error_label s @ '' error: '' @ e])\<rparr>)"

text \<open>The nodes in the order of \<open>add_node\<close>, the entry point and the edges.\<close>

definition nodes :: "stage list" where
  "nodes = [api_collector, web_scraper, data_processor, recommendation, sentiment_analyzer,
            similarity_engine, price_predictor, planner, researcher, analytics_engine]"

definition entry_point :: stage where
  "entry_point = api_collector"

definition edges :: "(stage \<times> stage) list" where
  "edges =
     [(api_collector, web_scraper), (web_scraper, data_processor),
      (data_processor, recommendation), (data_processor, sentiment_analyzer),
      (data_processor, similarity_engine), (data_processor, price_predictor),
      (recommendation, planner), (sentiment_analyzer, planner),
      (similarity_engine, planner), (price_predictor, planner),
      (planner, researcher), (researcher, analytics_engine)]"

text \<open>The node with the edge to \<open>END\<close>.\<close>

definition sink :: stage where
  "sink = analytics_engine"

definition upstream :: "stage \<Rightarrow> stage list" where
  "upstream s = map fst (filter (\<lambda>(u, v). v = s) edges)"

text \<open>
  Running stages one after another: each stage gets the state the previous one
  returned.  An order is a schedule of the graph when it holds every node once and
  every edge points forward in it.
\<close>

definition run_stages ::
  "(stage \<Rightarrow> 'a travel_state \<Rightarrow> string + 'a) \<Rightarrow> stage list \<Rightarrow> 'a travel_state \<Rightarrow> 'a travel_state" where
  "run_stages body order state = fold (node body) order state"

fun position :: "stage \<Rightarrow> stage list \<Rightarrow> nat" where
  "position s [] = 0"
| "position s (x # xs) = (if x = s then 0 else Suc (position s xs))"

definition schedule :: "stage list \<Rightarrow> bool" where
  "schedule order \<longleftrightarrow>
     distinct order \<and> set order = set nodes
     \<and> list_all (\<lambda>(u, v). position u order < position v order) edges"

text \<open>A run in which the price predictor divides by zero and every other body succeeds.\<close>

definition failing_price_predictor :: "stage \<Rightarrow> unit travel_state \<Rightarrow> string + unit" where
  "failing_price_predictor s state =
     (if s = price_predictor then Inl ''division by zero'' else Inr ())"

definition empty_state :: "unit travel_state" where
  "empty_state = \<lparr>entries = Map.empty, steps_completed = None, errors = None\<rparr>"

text \<open>A state in which one stage has completed and one has failed.\<close>

definition started_state :: "unit travel_state" where
  "started_state =
     \<lparr>entries = Map.empty, steps_completed = Some [''api_collector''],
      errors = Some [''Web Scraper error: timeout'']\<rparr>"

section \<open>The workflow engine\<close>

text \<open>
  \<open>multi_agent_system/workflow_engine.py\<close>.  A step and the workflow data are
  dictionaries \<open>Dict[str, Any]\<close>: association lists from keys to Python values.  A
  value is a string or a list; a list is given by its printed form and is the one
  kind of value here that cannot be hashed.  \<open>datetime.now().isoformat()\<close> is the
  parameter \<open>now\<close>.
\<close>

datatype pyval = PStr string | PList string

type_synonym pydict = "(string \<times> pyval) list"

fun py_str :: "pyval \<Rightarrow> string" where
  "py_str (PStr s) = s"
| "py_str (PList printed) = printed"

text \<open>A text between single quotes, as an f-string or a \<open>repr\<close> writes it.\<close>

definition sq :: "string \<Rightarrow> string" where
  "sq s = CHR 0x27 # s @ [CHR 0x27]"

text \<open>\<open>d.get(key, default)\<close> and \<open>d.update(other)\<close>\<close>

definition dict_get :: "pydict \<Rightarrow> string \<Rightarrow> pyval \<Rightarrow> pyval" where
  "dict_get d key dflt = (case map_of d key of None \<Rightarrow> dflt | Some v \<Rightarrow> v)"

definition dict_update :: "pydict \<Rightarrow> pydict \<Rightarrow> pydict" where
  "dict_update d other = fold (\<lambda>(k, v). AList.update k v) other d"

text \<open>
  \<open>_execute_agent_step\<close>.  The test \<open>agent_name not in self.agent_registry\<close>
  hashes the name, and raises \<open>TypeError\<close> for a list; \<open>Inl\<close> carries the
  \<open>str\<close> of the exception.
\<close>

definition execute_agent_step :: "string list \<Rightarrow> string \<Rightarrow> pydict \<Rightarrow> pydict \<Rightarrow> string + pydict" where
  "execute_agent_step agent_registry now step data =
     (case dict_get step ''agent'' (PStr ''unknown'') of
        PList printed \<Rightarrow> Inl (''unhashable type: '' @ sq ''list'')
      | PStr agent_name \<Rightarrow>
          if agent_name \<notin> set agent_registry
          then Inr [(''error'', PStr (''Agent '' @ sq agent_name @ '' not registered''))]
          else Inr [(agent_name @ ''_result'', PStr (''Executed '' @ agent_name @ '' successfully'')),
                    (agent_name @ ''_timestamp'', PStr now),
                    (agent_name @ ''_status'', PStr ''success'')])"

definition execute_transform_step :: "string \<Rightarrow> pydict \<Rightarrow> pydict \<Rightarrow> pydict" where
  "execute_transform_step now step data =
     (let transform_type = py_str (dict_get step ''transform'' (PStr ''unknown''))
      in [(''transform_'' @ transform_type, PStr (''Applied '' @ transform_type @ '' transformation'')),
          (''transform_timestamp'', PStr now),
          (''transform_status'', PStr ''success'')])"

definition execute_condition_step :: "string \<Rightarrow> pydict \<Rightarrow> pydict \<Rightarrow> pydict" where
  "execute_condition_step now step data =
     [(''condition_result'', dict_get step ''condition'' (PStr ''true'')),
      (''condition_timestamp'', PStr now),
      (''condition_status'', PStr ''evaluated'')]"

text \<open>The entry of \<open>self.active_workflows\<close> for the running workflow.\<close>

record active_workflow =
  status :: string
  current_step :: "pyval option"
  wf_steps_completed :: "pyval list"

text \<open>
  \<open>_execute_workflow_steps\<close>: the loop over the steps.  An exception in the body of
  the \<open>try\<close> is caught by the handler of the loop, which stores \<open>str(e)\<close> under
  \<open>"error"\<close> and leaves the loop with \<open>break\<close>.
\<close>

fun execute_workflow_steps ::
  "string list \<Rightarrow> string \<Rightarrow> pydict list \<Rightarrow> pydict \<Rightarrow> active_workflow \<Rightarrow> pydict \<times> active_workflow" where
  "execute_workflow_steps agent_registry now [] current_data aw = (current_data, aw)"
| "execute_workflow_steps agent_registry now (step # steps) current_data aw =
     (let step_name = dict_get step ''name'' (PStr ''unknown'');
          step_type = dict_get step ''type'' (PStr ''agent_call'');
          aw1 = aw\<lparr>current_step := Some step_name\<rparr>;
          outcome =
            (if step_type = PStr ''agent_call''
               then execute_agent_step agent_registry now step current_data
             else if step_type = PStr ''data_transform''
               then Inr (execute_transform_step now step current_data)
             else if step_type = PStr ''condition''
               then Inr (execute_condition_step now step current_data)
             else Inr [(''error'', PStr (''Unknown step type: '' @ py_str step_type))])
      in case outcome of
           Inr result \<Rightarrow>
             execute_workflow_steps agent_registry now steps (dict_update current_data result)
               (aw1\<lparr>wf_steps_completed := wf_steps_completed aw1 @ [step_name]\<rparr>)
         | Inl e \<Rightarrow> (AList.update ''error'' (PStr e) current_data, aw1))"

text \<open>
  \<open>execute_workflow\<close> for a registered workflow: the entry starts as
  \<open>"running"\<close> and is set to \<open>"completed"\<close> when \<open>_execute_workflow_steps\<close>
  returns, which it always does.
\<close>

definition execute_workflow ::
  "string list \<Rightarrow> string \<Rightarrow> pydict list \<Rightarrow> pydict \<Rightarrow> pydict \<times> active_workflow" where
  "execute_workflow agent_registry now steps input_data =
     (let (result, aw) =
            execute_workflow_steps agent_registry now steps input_data
              \<lparr>status = ''running'', current_step = None, wf_steps_completed = []\<rparr>
      in (result, aw\<lparr>status := ''completed''\<rparr>))"

text \<open>
  Three agent steps, all agents registered; the second names its agent by a list.
\<close>

definition three_steps :: "pydict list" where
  "three_steps =
     [[(''name'', PStr ''collect''), (''type'', PStr ''agent_call''), (''agent'', PStr ''collector'')],
      [(''name'', PStr ''plan''), (''type'', PStr ''agent_call''), (''agent'', PList (''['' @ sq ''planner'' @ '']''))],
      [(''name'', PStr ''report''), (''type'', PStr ''agent_call''), (''agent'', PStr ''reporter'')]]"

section \<open>Dispatch of the stages\<close>

text \<open>
  The source builds the graph and hands it to \<open>graph.compile()\<close> of the LangGraph
  library; the runtime that dispatches the nodes is not part of the sources.  Its state
  machine is taken from the spec; the upstream sets are read off the edges of the
  source (\<open>upstream\<close>).
\<close>

text \<open>
  Modelled from the spec: the per-stage states of the executor, which is missing from
  the sources: \<open>Waiting\<close>, then \<open>Running\<close>, then \<open>Done\<close> or \<open>Errored\<close>.
\<close>

datatype stage_status = Waiting | Running | Done | Errored

text \<open>
  Modelled from the spec: the two transitions of a stage in the missing executor, its
  dispatch and its end; the flag of \<open>Finish\<close> says whether the stage function
  returned without an error (\<open>Done\<close>) or not (\<open>Errored\<close>).
\<close>

datatype event = Dispatch stage | Finish stage bool

type_synonym statuses = "stage \<Rightarrow> stage_status"

text \<open>
  Modelled from the spec: the terminal per-stage states of the missing executor.
\<close>

definition terminal :: "stage_status \<Rightarrow> bool" where
  "terminal st \<longleftrightarrow> st = Done \<or> st = Errored"

text \<open>
  Modelled from the spec: when the missing executor may take a transition.  A stage is
  dispatched only while it waits and every stage upstream of it is \<open>Done\<close> or
  \<open>Errored\<close>; stages that are ready together may be dispatched in any order and run
  concurrently; a stage ends only while it runs.
\<close>

fun enabled :: "statuses \<Rightarrow> event \<Rightarrow> bool" where
  "enabled c (Dispatch s) \<longleftrightarrow> c s = Waiting \<and> list_all (\<lambda>u. terminal (c u)) (upstream s)"
| "enabled c (Finish s ok) \<longleftrightarrow> c s = Running"

text \<open>
  Modelled from the spec: the effect of a transition of the missing executor on the
  states of the stages.
\<close>

fun fire :: "statuses \<Rightarrow> event \<Rightarrow> statuses" where
  "fire c (Dispatch s) = c(s := Running)"
| "fire c (Finish s ok) = c(s := (if ok then Done else Errored))"

text \<open>
  Modelled from the spec: a run of the missing executor, a sequence of transitions each
  enabled when it happens; \<open>None\<close> when some transition of the sequence is not
  enabled.
\<close>

fun run_events :: "statuses \<Rightarrow> event list \<Rightarrow> statuses option" where
  "run_events c [] = Some c"
| "run_events c (e # es) = (if enabled c e then run_events (fire c e) es else None)"

text \<open>
  Modelled from the spec: the start of a run of the missing executor, every stage
  waiting.
\<close>

definition initial :: statuses where
  "initial = (\<lambda>s. Waiting)"

text \<open>The number of events a stage still has in front of it.\<close>

fun events_left :: "stage_status \<Rightarrow> nat" where
  "events_left Waiting = 2"
| "events_left Running = 1"
| "events_left Done = 0"
| "events_left Errored = 0"

definition remaining_events :: "statuses \<Rightarrow> nat" where
  "remaining_events c = sum_list (map (\<lambda>s. events_left (c s)) nodes)"

text \<open>
  A run in which the four analysis stages overlap and the price predictor ends in
  \<open>Errored\<close>.
\<close>

definition overlapping_run :: "event list" where
  "overlapping_run =
     [Dispatch api_collector, Finish api_collector True,
      Dispatch web_scraper, Finish web_scraper True,
      Dispatch data_processor, Finish data_processor True,
      Dispatch recommendation, Dispatch sentiment_analyzer,
      Dispatch similarity_engine, Dispatch price_predictor,
      Finish similarity_engine True, Finish price_predictor False,
      Finish recommendation True, Finish sentiment_analyzer True,
      Dispatch planner, Finish planner True,
      Dispatch researcher, Finish researcher True,
      Dispatch analytics_engine, Finish analytics_engine True]"

definition overlapping_final :: statuses where
  "overlapping_final = (\<lambda>s. if s = price_predictor then Errored else Done)"

section \<open>The adapters: requests with caching\<close>

text \<open>
  \<open>APICollector._make_api_request\<close> and \<open>WebScraper._make_request\<close>.
  The cache file can be faulty: \<open>read_fault\<close> and \<open>write_fault\<close> hold the message
  of the \<open>sqlite3\<close> error that the next read or write of the file raises.  The
  remote service is a script of answers, one per request, and a count of the requests
  made so far; \<open>slept\<close> collects the arguments of the \<open>time.sleep\<close> calls of the
  retry loop, in seconds.  All clock readings of one call are the argument \<open>now\<close>;
  the sleeps of the rate limiter and \<open>_random_delay\<close> are not recorded.
\<close>

datatype 'r http_outcome = HttpError string | HttpOk 'r

record 'r world =
  remote :: "nat \<Rightarrow> 'r http_outcome"
  requests_made :: nat
  slept :: "nat list"

definition http_get :: "'r world \<Rightarrow> 'r http_outcome \<times> 'r world" where
  "http_get w = (remote w (requests_made w), w\<lparr>requests_made := Suc (requests_made w)\<rparr>)"

text \<open>Python's truth value of a decoded JSON document.\<close>

fun truthy :: "json \<Rightarrow> bool" where
  "truthy JNull = False"
| "truthy (JBool b) = b"
| "truthy (JInt i) = (i \<noteq> 0)"
| "truthy (JStr s) = (s \<noteq> [])"
| "truthy (JList xs) = (xs \<noteq> [])"
| "truthy (JDict kvs) = (kvs \<noteq> [])"

subsection \<open>\<open>APICollector\<close>\<close>

record cache_file =
  table :: "json api_table"
  read_fault :: "string option"
  write_fault :: "string option"

record collector =
  api_keys :: "string \<rightharpoonup> string"
  rate_limits :: "string \<rightharpoonup> nat"
  request_counts :: "string \<rightharpoonup> nat"
  last_request_time :: "string \<rightharpoonup> timestamp"
  cache :: cache_file

text \<open>
  \<open>_get_cached_response\<close> and \<open>_cache_response\<close> on the file: neither has a
  \<open>try\<close>, so an error of \<open>sqlite3\<close> leaves the function as an exception.  The
  read fault is raised by the \<open>SELECT\<close>, the write fault by the \<open>INSERT\<close>,
  which comes after \<open>expires_at\<close> has been computed.
\<close>

definition get_cached_response_io :: "cache_file \<Rightarrow> string \<Rightarrow> timestamp \<Rightarrow> exn + json option" where
  "get_cached_response_io f cache_key now =
     (case read_fault f of
        Some m \<Rightarrow> Inl (SqliteError m)
      | None \<Rightarrow> Inr (get_cached_response (table f) cache_key now))"

definition cache_response_io ::
  "cache_file \<Rightarrow> string \<Rightarrow> string \<Rightarrow> string \<Rightarrow> json \<Rightarrow> int \<Rightarrow> timestamp \<Rightarrow> exn + cache_file" where
  "cache_response_io f cache_key an ep resp cache_duration_hours now =
     (case cache_response (table f) cache_key an ep resp cache_duration_hours now now of
        Inl e \<Rightarrow> Inl e
      | Inr tbl \<Rightarrow>
          (case write_fault f of
             Some m \<Rightarrow> Inl (SqliteError m)
           | None \<Rightarrow> Inr (f\<lparr>table := tbl\<rparr>)))"

text \<open>
  \<open>_rate_limit_check\<close>: the counter of the API is reset when a second has passed
  since the last request, or after the sleep that waits for the second to pass; then
  it is incremented.  The function returns \<open>True\<close> on every path that returns; it
  raises \<open>KeyError\<close> for an API that is not in the tables.
\<close>

definition rate_limit_check :: "collector \<Rightarrow> string \<Rightarrow> timestamp \<Rightarrow> exn + collector" where
  "rate_limit_check c an now =
     (case (last_request_time c an, request_counts c an, rate_limits c an) of
        (Some last_time, Some count, Some limit) \<Rightarrow>
          (let time_diff = now - last_time;
               count1 = (if time_diff \<ge> 1000000 then 0 else count);
               count2 = (if count1 \<ge> limit \<and> 1000000 - time_diff > 0 then 0 else count1)
           in Inr (c\<lparr>request_counts := (request_counts c)(an \<mapsto> count2 + 1),
                     last_request_time := (last_request_time c)(an \<mapsto> now)\<rparr>))
      | _ \<Rightarrow> Inl (KeyError an))"

text \<open>
  \<open>_make_api_request\<close>.  The cache lookup and the rate limiter stand before the
  \<open>try\<close>; the \<open>try\<close> holds the one call of \<open>requests.get\<close> and the cache
  write, and its handler catches \<open>RequestException\<close> only.
  The assignment \<open>params['key'] = api_key\<close> comes after the cache key has been
  derived and only changes what is sent.
\<close>

definition make_api_request ::
  "(string \<Rightarrow> string) \<Rightarrow> (string \<Rightarrow> string) \<Rightarrow> collector \<Rightarrow> json world \<Rightarrow> string \<Rightarrow> string \<Rightarrow>
     (string \<times> json) list \<Rightarrow> int \<Rightarrow> timestamp \<Rightarrow> exn + (json option \<times> collector \<times> json world)" where
  "make_api_request md5 enc c w an ep ps cache_duration_hours now =
     (let cache_key = generate_cache_key md5 enc an ep ps
      in case get_cached_response_io (cache c) cache_key now of
           Inl e \<Rightarrow> Inl e
         | Inr cached \<Rightarrow>
             if (case cached of Some v \<Rightarrow> truthy v | None \<Rightarrow> False) then Inr (cached, c, w)
             else
               (case rate_limit_check c an now of
                  Inl e \<Rightarrow> Inl e
                | Inr c1 \<Rightarrow>
                    (case api_keys c1 an of
                       None \<Rightarrow> Inr (None, c1, w)
                     | Some api_key \<Rightarrow>
                         if api_key = [] then Inr (None, c1, w)
                         else
                           (case http_get w of
                              (HttpError m, w1) \<Rightarrow> Inr (None, c1, w1)
                            | (HttpOk resp, w1) \<Rightarrow>
                                (case cache_response_io (cache c1) cache_key an ep resp
                                        cache_duration_hours now of
                                   Inl e \<Rightarrow> Inl e
                                 | Inr f \<Rightarrow> Inr (Some resp, c1\<lparr>cache := f\<rparr>, w1))))))"

subsection \<open>\<open>WebScraper\<close>\<close>

record cached_content =
  wc_url :: string
  wc_content :: string
  wc_created_at :: timestamp
  wc_expires_at :: timestamp

record scraper =
  max_retries :: nat
  web_table :: "(string \<times> cached_content) list"
  web_read_fault :: "string option"
  web_write_fault :: "string option"

definition get_cached_content :: "scraper \<Rightarrow> string \<Rightarrow> timestamp \<Rightarrow> exn + string option" where
  "get_cached_content sc cache_key now =
     (case web_read_fault sc of
        Some m \<Rightarrow> Inl (SqliteError m)
      | None \<Rightarrow>
          Inr (case map_of (web_table sc) cache_key of
                 None \<Rightarrow> None
               | Some r \<Rightarrow> if wc_expires_at r > now then Some (wc_content r) else None))"

definition cache_content ::
  "scraper \<Rightarrow> string \<Rightarrow> string \<Rightarrow> string \<Rightarrow> int \<Rightarrow> timestamp \<Rightarrow> exn + scraper" where
  "cache_content sc cache_key u txt cache_duration_hours now =
     (case expires_after now cache_duration_hours of
        Inl e \<Rightarrow> Inl e
      | Inr expiry \<Rightarrow>
          (case web_write_fault sc of
             Some m \<Rightarrow> Inl (SqliteError m)
           | None \<Rightarrow>
               Inr (sc\<lparr>web_table :=
                         AList.update cache_key
                           \<lparr>wc_url = u, wc_content = txt, wc_created_at = now,
                            wc_expires_at = expiry\<rparr>
                           (web_table sc)\<rparr>)))"

text \<open>
  \<open>_make_request\<close>: the cache lookup stands before the \<open>try\<close>; the handler of
  \<open>RequestException\<close> sleeps \<open>2 ** retries\<close> seconds and calls the function again
  with \<open>retries + 1\<close> while \<open>retries < self.max_retries\<close>, and returns \<open>None\<close>
  otherwise.
\<close>

function make_request ::
  "(string \<Rightarrow> string) \<Rightarrow> scraper \<Rightarrow> string world \<Rightarrow> string \<Rightarrow> nat \<Rightarrow> int \<Rightarrow> timestamp \<Rightarrow>
     exn + (string option \<times> scraper \<times> string world)" where
  "make_request md5 sc w u retries cache_duration_hours now =
     (case get_cached_content sc (md5 u) now of
        Inl e \<Rightarrow> Inl e
      | Inr cached \<Rightarrow>
          if (case cached of Some txt \<Rightarrow> txt \<noteq> [] | None \<Rightarrow> False) then Inr (cached, sc, w)
          else
            (case http_get w of
               (HttpOk txt, w1) \<Rightarrow>
                 (case cache_content sc (md5 u) u txt cache_duration_hours now of
                    Inl e \<Rightarrow> Inl e
                  | Inr sc1 \<Rightarrow> Inr (Some txt, sc1, w1))
             | (HttpError m, w1) \<Rightarrow>
                 if retries < max_retries sc
                 then make_request md5 sc (w1\<lparr>slept := slept w1 @ [2 ^ retries]\<rparr>) u (retries + 1)
                        cache_duration_hours now
                 else Inr (None, sc, w1)))"
  by pat_completeness auto
termination
  by (relation "measure (\<lambda>(md5, sc, w, u, retries, h, now). max_retries sc - retries)") auto

text \<open>
  A collector with a key for \<open>openweather\<close> and an empty, healthy cache; a scraper
  as \<open>WebScraper.__init__\<close> sets it up (\<open>max_retries = 3\<close>); a remote service that
  fails once and then answers, and one that always fails.
\<close>

definition weather_collector :: collector where
  "weather_collector =
     \<lparr>api_keys = [''openweather'' \<mapsto> ''k''],
      rate_limits = [''openweather'' \<mapsto> 60],
      request_counts = [''openweather'' \<mapsto> 0],
      last_request_time = [''openweather'' \<mapsto> 0],
      cache = \<lparr>table = [], read_fault = None, write_fault = None\<rparr>\<rparr>"

definition new_scraper :: scraper where
  "new_scraper = \<lparr>max_retries = 3, web_table = [], web_read_fault = None, web_write_fault = None\<rparr>"

definition fails_once :: "json world" where
  "fails_once =
     \<lparr>remote = (\<lambda>i. if i = 0 then HttpError ''timeout'' else HttpOk (JDict [(''temp'', JInt 25)])),
      requests_made = 0, slept = []\<rparr>"

definition always_down :: "string world" where
  "always_down = \<lparr>remote = (\<lambda>i. HttpError ''timeout''), requests_made = 0, slept = []\<rparr>"

definition answers :: "json world" where
  "answers = \<lparr>remote = (\<lambda>i. HttpOk (JDict [(''temp'', JInt 25)])), requests_made = 0, slept = []\<rparr>"

text \<open>The same collector with a cache file that cannot be read, or cannot be written.\<close>

definition unreadable_collector :: collector where
  "unreadable_collector =
     weather_collector\<lparr>cache := \<lparr>table = [], read_fault = Some ''disk I/O error'', write_fault = None\<rparr>\<rparr>"

definition unwritable_collector :: collector where
  "unwritable_collector =
     weather_collector\<lparr>cache := \<lparr>table = [], read_fault = None, write_fault = Some ''database is locked''\<rparr>\<rparr>"

text \<open>
  The scraper with a cache file that cannot be read, or cannot be written, and a remote
  service that answers every request with a page.
\<close>

definition unreadable_scraper :: scraper where
  "unreadable_scraper = new_scraper\<lparr>web_read_fault := Some ''disk I/O error''\<rparr>"

definition unwritable_scraper :: scraper where
  "unwritable_scraper = new_scraper\<lparr>web_write_fault := Some ''database is locked''\<rparr>"

definition page_answers :: "string world" where
  "page_answers = \<lparr>remote = (\<lambda>i. HttpOk ''<html></html>''), requests_made = 0, slept = []\<rparr>"

section \<open>The run controller\<close>

text \<open>
  \<open>app.py\<close>, \<open>tao_ke_hoach_du_lich\<close>, with \<open>utils/transport_calculator.py\<close>.
  The arguments are the texts of the form, as the bytes of their UTF-8 encoding.  The
  builtins \<open>str.strip\<close>, \<open>int\<close> and \<open>str.lower\<close> work on Unicode text (white
  space and decimal digits of every script, a limit on the number of digits); they are
  parameters of the model: \<open>strip\<close>, \<open>py_int\<close> (\<open>None\<close> stands for
  \<open>ValueError\<close>) and \<open>lower\<close>.  Removing the characters \<open>,\<close> and \<open>.\<close> is
  the same on the bytes as on the text, since neither byte occurs inside the encoding
  of another character.
\<close>

text \<open>\<open>not s or not s.strip()\<close>\<close>

definition blank :: "(string \<Rightarrow> string) \<Rightarrow> string \<Rightarrow> bool" where
  "blank strip s \<longleftrightarrow> s = [] \<or> strip s = []"

text \<open>
  The three conversions of the controller, each in a \<open>try\<close> whose bare
  \<open>except\<close> puts the default in place of a text that \<open>int\<close> rejects; an empty
  text gets the default without a call of \<open>int\<close>.
\<close>

definition budget_of :: "(string \<Rightarrow> string) \<Rightarrow> (string \<Rightarrow> int option) \<Rightarrow> string \<Rightarrow> int" where
  "budget_of strip py_int ngan_sach =
     (if ngan_sach = [] then 10000000
      else (case py_int (strip (filter (\<lambda>c. c \<noteq> CHR ''.'') (filter (\<lambda>c. c \<noteq> CHR '','') ngan_sach))) of
              Some n \<Rightarrow> n
            | None \<Rightarrow> 10000000))"

definition days_of :: "(string \<Rightarrow> string) \<Rightarrow> (string \<Rightarrow> int option) \<Rightarrow> string \<Rightarrow> int" where
  "days_of strip py_int so_ngay =
     (if so_ngay = [] then 3 else (case py_int (strip so_ngay) of Some n \<Rightarrow> n | None \<Rightarrow> 3))"

definition travelers_of :: "(string \<Rightarrow> string) \<Rightarrow> (string \<Rightarrow> int option) \<Rightarrow> string \<Rightarrow> int" where
  "travelers_of strip py_int so_nguoi =
     (if so_nguoi = [] then 2 else (case py_int (strip so_nguoi) of Some n \<Rightarrow> n | None \<Rightarrow> 2))"

text \<open>
  \<open>normalize_city_name\<close> and \<open>get_distance\<close>.  The tables \<open>CITY_ALIASES\<close> and
  \<open>DISTANCES\<close> (Vietnamese names) are parameters.
  \<open>DISTANCES.get(key1) or DISTANCES.get(key2)\<close> takes the second lookup when the
  first is \<open>None\<close> or 0.
\<close>

definition normalize_city_name ::
  "(string \<Rightarrow> string) \<Rightarrow> (string \<Rightarrow> string) \<Rightarrow> (string \<rightharpoonup> string) \<Rightarrow> string \<Rightarrow> string" where
  "normalize_city_name strip lower aliases city =
     (if city = [] then city
      else (case aliases (strip (lower city)) of Some name \<Rightarrow> name | None \<Rightarrow> strip city))"

definition get_distance ::
  "(string \<Rightarrow> string) \<Rightarrow> (string \<Rightarrow> string) \<Rightarrow> (string \<rightharpoonup> string) \<Rightarrow> (string \<times> string \<rightharpoonup> int) \<Rightarrow>
     string \<Rightarrow> string \<Rightarrow> int option" where
  "get_distance strip lower aliases distances city1 city2 =
     (let c1 = normalize_city_name strip lower aliases city1;
          c2 = normalize_city_name strip lower aliases city2
      in if c1 = c2 then Some 0
         else (case distances (c1, c2) of
                 None \<Rightarrow> distances (c2, c1)
               | Some d \<Rightarrow> if d \<noteq> 0 then Some d else distances (c2, c1)))"

text \<open>
  \<open>calculate_transport_cost\<close>, the entries \<open>distance\<close> and \<open>min_cost\<close> of its
  result and the \<open>total_cost\<close> of the first three of its \<open>options\<close>.  For two
  different cities the costs are computed in floating point
  (\<open>distance * 0.15 * 1000\<close> and the like), and \<open>car_cost / travelers\<close> raises
  \<open>ZeroDivisionError\<close> for no travelers; that part is the parameter
  \<open>route_costs\<close> of the distance and the number of travelers: the least cost and
  the costs of the first three options, or \<open>Inl\<close> for an exception.
\<close>

record transport_info =
  distance :: int
  min_cost :: int
  option_costs :: "int list"

definition calculate_transport_cost ::
  "(string \<Rightarrow> string) \<Rightarrow> (string \<Rightarrow> string) \<Rightarrow> (string \<rightharpoonup> string) \<Rightarrow> (string \<times> string \<rightharpoonup> int) \<Rightarrow>
     (int \<Rightarrow> int \<Rightarrow> string + int \<times> int list) \<Rightarrow> string \<Rightarrow> string \<Rightarrow> int \<Rightarrow>
     string + transport_info" where
  "calculate_transport_cost strip lower aliases distances route_costs from_city to_city travelers =
     (case get_distance strip lower aliases distances from_city to_city of
        None \<Rightarrow> Inr \<lparr>distance = 0, min_cost = 0, option_costs = []\<rparr>
      | Some d \<Rightarrow>
          if d = 0
          then Inr \<lparr>distance = 0, min_cost = 7000 * travelers * 4,
                    option_costs = [7000 * travelers * 4, 30000 * travelers * 3,
                                    50000 * travelers * 3]\<rparr>
          else (case route_costs d travelers of
                  Inl e \<Rightarrow> Inl e
                | Inr (cost, costs) \<Rightarrow>
                    Inr \<lparr>distance = d, min_cost = cost, option_costs = costs\<rparr>))"

text \<open>
  The true division \<open>a / b\<close> of two integers gives a float.  It raises
  \<open>ZeroDivisionError\<close> for \<open>b = 0\<close> and \<open>OverflowError\<close> when the quotient is
  too large for a float; whether it is, is the parameter \<open>too_large\<close>.  The result
  is the message of the exception, if any.
\<close>

definition truediv_error :: "(int \<Rightarrow> int \<Rightarrow> bool) \<Rightarrow> int \<Rightarrow> int \<Rightarrow> string option" where
  "truediv_error too_large a b =
     (if b = 0 then Some ''division by zero''
      else if too_large a b then Some ''integer division result too large for a float''
      else None)"

text \<open>
  Writing an integer in decimal (\<open>str\<close>, an f-string) raises \<open>ValueError\<close> when
  the integer has more digits than the interpreter's limit; \<open>str_error\<close> gives the
  message of that exception, if any.  An f-string writes its values from left to
  right: \<open>first_error\<close> is the exception of the first value that cannot be
  written.
\<close>

fun first_error :: "string option list \<Rightarrow> string option" where
  "first_error [] = None"
| "first_error (None # es) = first_error es"
| "first_error (Some e # es) = Some e"

definition format_error :: "(int \<Rightarrow> string option) \<Rightarrow> int list \<Rightarrow> string option" where
  "format_error str_error ns = first_error (map str_error ns)"

text \<open>
  \<open>validate_budget\<close>: the verdict and the integer entries of the breakdown (the
  other entries are shares of the float \<open>remaining / days\<close>, which do not raise
  once the division has not).  When the budget is too small, the division is made
  only for a positive remainder, and the message of the result writes the shortage,
  the transport cost, the least cost at the destination and the total needed.
\<close>

record budget_breakdown =
  transport :: int
  remaining :: int
  shortage :: "int option"

definition validate_budget ::
  "(int \<Rightarrow> int \<Rightarrow> bool) \<Rightarrow> (int \<Rightarrow> string option) \<Rightarrow> int \<Rightarrow> int \<Rightarrow> int \<Rightarrow> int \<Rightarrow>
     string + bool \<times> budget_breakdown" where
  "validate_budget too_large str_error total_budget transport_cost days travelers =
     (let remaining_budget = total_budget - transport_cost;
          min_cost_per_day = 200000 + 150000 + 100000;
          min_total_needed = transport_cost + (min_cost_per_day * days * travelers)
      in if total_budget < min_total_needed
         then (case first_error
                      [if remaining_budget > 0 then truediv_error too_large remaining_budget days
                       else None,
                       format_error str_error
                         [min_total_needed - total_budget, transport_cost,
                          min_cost_per_day * days * travelers, min_total_needed]] of
                 Some e \<Rightarrow> Inl e
               | None \<Rightarrow>
                   Inr (False,
                        \<lparr>transport = transport_cost, remaining = remaining_budget,
                         shortage = Some (min_total_needed - total_budget)\<rparr>))
         else (case truediv_error too_large remaining_budget days of
                 Some e \<Rightarrow> Inl e
               | None \<Rightarrow>
                   Inr (True,
                        \<lparr>transport = transport_cost, remaining = remaining_budget,
                         shortage = None\<rparr>)))"

text \<open>
  What a call of the controller comes to, when the generator is run to its end: the
  \<open>return\<close> for a missing destination, the \<open>return\<close> of the page for a budget
  that is too small, the handler \<open>except Exception\<close> of the whole body, or the call
  of \<open>run_travel_workflow\<close> with its arguments \<open>destination\<close>, \<open>budget\<close>,
  \<open>days\<close>, \<open>travelers\<close> and \<open>interests\<close>.  The page for a small budget
  writes the days, the travelers, the budget, the distance, the transport cost and
  the costs of the options; the text that is yielded before the workflow writes the
  budget, the days, the travelers, the distance, the transport cost and the entries
  \<open>transport\<close>, \<open>remaining\<close> and \<open>per_day\<close> of the breakdown, of which
  \<open>per_day\<close>, the integer part of a float, can always be written.  Before the
  workflow the controller calls the RAG agent, an external service; \<open>rag_error\<close>
  is the message of the exception it raises, if any.  The library functions are
  gathered in one record.
\<close>

datatype outcome =
    MissingDestination
  | InsufficientBudget int
  | ErrorPage string
  | WorkflowInvoked string int int int string

record builtins =
  str_strip :: "string \<Rightarrow> string"
  str_lower :: "string \<Rightarrow> string"
  int_of_str :: "string \<Rightarrow> int option"
  float_too_large :: "int \<Rightarrow> int \<Rightarrow> bool"
  int_str_error :: "int \<Rightarrow> string option"

definition tao_ke_hoach_du_lich ::
  "builtins \<Rightarrow> (string \<rightharpoonup> string) \<Rightarrow> (string \<times> string \<rightharpoonup> int) \<Rightarrow>
     (int \<Rightarrow> int \<Rightarrow> string + int \<times> int list) \<Rightarrow> string option \<Rightarrow>
     string \<Rightarrow> string \<Rightarrow> string \<Rightarrow> string \<Rightarrow> string \<Rightarrow> string \<Rightarrow> outcome" where
  "tao_ke_hoach_du_lich py aliases distances route_costs rag_error
       diem_di diem_den ngan_sach so_ngay so_nguoi so_thich =
     (if blank (str_strip py) diem_den then MissingDestination
      else
        (let departure = (if blank (str_strip py) diem_di then diem_den else diem_di);
             budget = budget_of (str_strip py) (int_of_str py) ngan_sach;
             days = days_of (str_strip py) (int_of_str py) so_ngay;
             travelers = travelers_of (str_strip py) (int_of_str py) so_nguoi
         in case calculate_transport_cost (str_strip py) (str_lower py) aliases distances
                   route_costs departure diem_den travelers of
              Inl e \<Rightarrow> ErrorPage e
            | Inr info \<Rightarrow>
                (case validate_budget (float_too_large py) (int_str_error py) budget
                        (min_cost info) days travelers of
                   Inl e \<Rightarrow> ErrorPage e
                 | Inr (is_valid, breakdown) \<Rightarrow>
                     if \<not> is_valid
                     then (case format_error (int_str_error py)
                                  ([days, travelers, budget, distance info, min_cost info]
                                   @ option_costs info) of
                             Some e \<Rightarrow> ErrorPage e
                           | None \<Rightarrow>
                               InsufficientBudget
                                 (case shortage breakdown of Some n \<Rightarrow> n | None \<Rightarrow> 0))
                     else (case format_error (int_str_error py)
                                  [budget, days, travelers, distance info, min_cost info,
                                   transport breakdown, remaining breakdown] of
                             Some e \<Rightarrow> ErrorPage e
                           | None \<Rightarrow>
                               (case rag_error of
                                  Some e \<Rightarrow> ErrorPage e
                                | None \<Rightarrow>
                                    WorkflowInvoked diem_den budget days travelers so_thich)))))"

text \<open>
  The builtins on ASCII text of moderate size, for the examples: the white space of
  \<open>strip\<close> is the characters 9 to 13 and 28 to 32; \<open>int\<close> reads, between white
  space, an optional sign and decimal digits that single underscores may separate;
  \<open>lower\<close> is not needed and left as the identity; no quotient of the examples is
  too large for a float and every integer of the examples can be written.
\<close>

definition is_space :: "char \<Rightarrow> bool" where
  "is_space c \<longleftrightarrow> (let n = (of_char c :: nat) in (9 \<le> n \<and> n \<le> 13) \<or> (28 \<le> n \<and> n \<le> 32))"

definition ascii_strip :: "string \<Rightarrow> string" where
  "ascii_strip s = rev (dropWhile is_space (rev (dropWhile is_space s)))"

definition is_digit :: "char \<Rightarrow> bool" where
  "is_digit c \<longleftrightarrow> (let n = (of_char c :: nat) in 48 \<le> n \<and> n \<le> 57)"

definition digit_value :: "char \<Rightarrow> nat" where
  "digit_value c = of_char c - 48"

fun parse_digits :: "nat \<Rightarrow> bool \<Rightarrow> string \<Rightarrow> nat option" where
  "parse_digits acc after_digit [] = (if after_digit then Some acc else None)"
| "parse_digits acc after_digit (c # cs) =
     (if is_digit c then parse_digits (10 * acc + digit_value c) True cs
      else if c = CHR ''_'' \<and> after_digit then parse_digits acc False cs
      else None)"

definition ascii_int :: "string \<Rightarrow> int option" where
  "ascii_int s =
     (case ascii_strip s of
        [] \<Rightarrow> None
      | c # cs \<Rightarrow>
          if c = CHR ''-'' then map_option (\<lambda>n. - int n) (parse_digits 0 False cs)
          else if c = CHR ''+'' then map_option int (parse_digits 0 False cs)
          else map_option int (parse_digits 0 False (c # cs)))"

definition ascii_builtins :: builtins where
  "ascii_builtins =
     \<lparr>str_strip = ascii_strip, str_lower = (\<lambda>s. s), int_of_str = ascii_int,
      float_too_large = (\<lambda>a b. False), int_str_error = (\<lambda>n. None)\<rparr>"

text \<open>
  The controller on such text, with no alias, no distance table entry and a RAG agent
  that answers.
\<close>

definition plan_trip :: "string \<Rightarrow> string \<Rightarrow> string \<Rightarrow> string \<Rightarrow> string \<Rightarrow> string \<Rightarrow> outcome" where
  "plan_trip = tao_ke_hoach_du_lich ascii_builtins Map.empty Map.empty (\<lambda>d t. Inr (0, [])) None"

section \<open>Properties of the cache\<close>

lemma map_of_update_same: "map_of (AList.update k v al) k = Some v"
  by (simp add: update_conv')

lemma map_of_update_other: "k' \<noteq> k \<Longrightarrow> map_of (AList.update k v al) k' = map_of al k'"
  by (simp add: update_conv')

lemma update_keys_present:
  "map_of al k = Some r \<Longrightarrow> map fst (AList.update k v al) = map fst al"
  by (induction al) (auto split: if_splits)

lemma expires_after_cases:
  "expires_after now h = Inr e \<longleftrightarrow>
     e = now + timedelta_hours h \<and> - 999999999 \<le> h div 24 \<and> h div 24 \<le> 999999999
     \<and> 0 \<le> now + timedelta_hours h \<and> now + timedelta_hours h \<le> datetime_max"
  "expires_after now h = Inl x \<longleftrightarrow>
     x = OverflowError
     \<and> \<not> (- 999999999 \<le> h div 24 \<and> h div 24 \<le> 999999999
          \<and> 0 \<le> now + timedelta_hours h \<and> now + timedelta_hours h \<le> datetime_max)"
  by (auto simp add: expires_after_def)

lemma set_api_cache_stored:
  "set_api_cache db k an ep ps v h now now' = Inr db' \<longleftrightarrow>
     expires_after now h = Inr (now + timedelta_hours h)
     \<and> db' = db\<lparr>api_cache :=
                   AList.update k
                     \<lparr>api_name = an, endpoint = ep, params = ps, response_data = v,
                      created_at = now', expires_at = now + timedelta_hours h, hit_count = 0\<rparr>
                     (api_cache db)\<rparr>"
  by (auto simp add: set_api_cache_def expires_after_cases split: sum.splits)

lemma set_web_cache_stored:
  "set_web_cache md5 db u page h now now' = Inr db' \<longleftrightarrow>
     expires_after now h = Inr (now + timedelta_hours h)
     \<and> db' = db\<lparr>web_cache :=
                   AList.update (md5 u)
                     \<lparr>url = u, content = page, content_type = ''html'', web_created_at = now',
                      web_expires_at = now + timedelta_hours h, web_hit_count = 0\<rparr>
                     (web_cache db)\<rparr>"
  by (auto simp add: set_web_cache_def expires_after_cases split: sum.splits)

lemma cache_response_stored:
  "cache_response tbl k an ep v h now now' = Inr tbl' \<longleftrightarrow>
     expires_after now h = Inr (now + timedelta_hours h)
     \<and> tbl' = AList.update k
                \<lparr>ac_api_name = an, ac_endpoint = ep, ac_response_data = v,
                 ac_created_at = now', ac_expires_at = now + timedelta_hours h\<rparr>
                tbl"
  by (auto simp add: cache_response_def expires_after_cases split: sum.splits)

lemma setters_raise_overflow_only:
  "set_api_cache db k an ep ps v h now now' = Inl x \<longleftrightarrow> expires_after now h = Inl x"
  "set_web_cache md5 db u page h now now' = Inl x \<longleftrightarrow> expires_after now h = Inl x"
  "cache_response tbl k an ep v h now now' = Inl x \<longleftrightarrow> expires_after now h = Inl x"
  by (simp_all add: set_api_cache_def set_web_cache_def cache_response_def split: sum.splits)

text \<open>
  Claim C2.  \<open>set_api_cache\<close>, \<open>set_web_cache\<close> and the collector's
  \<open>_cache_response\<close> store the entry exactly when the expiry time, the first clock
  reading plus the TTL, can be computed, that is when it lies in the range of
  \<open>datetime\<close> (and the TTL in the range of \<open>timedelta\<close>); otherwise they raise
  \<open>OverflowError\<close> and store nothing.  After a store, a lookup of the same key at
  any time strictly before the entry's expiry time returns exactly the stored value,
  and a lookup at or after it returns \<open>None\<close>.  For every entry of these tables, a
  lookup at or after the entry's \<open>expires_at\<close> is a miss.
\<close>

theorem set_get_before_expiry:
  "(\<forall>db'. set_api_cache db k an ep ps v h now now' = Inr db' \<longrightarrow>
      (\<exists>r. map_of (api_cache db') k = Some r \<and> expires_at r = now + timedelta_hours h
           \<and> response_data r = v)
      \<and> (t < now + timedelta_hours h \<longrightarrow> snd (get_api_cache db' k t) = Some v)
      \<and> (now + timedelta_hours h \<le> t \<longrightarrow> snd (get_api_cache db' k t) = None))
 \<and> (\<forall>r. map_of (api_cache db) k = Some r \<and> expires_at r \<le> t \<longrightarrow>
        snd (get_api_cache db k t) = None)
 \<and> (\<forall>tbl'. cache_response tbl k an ep v h now now' = Inr tbl' \<longrightarrow>
      (\<exists>r. map_of tbl' k = Some r \<and> ac_expires_at r = now + timedelta_hours h
           \<and> ac_response_data r = v)
      \<and> (t < now + timedelta_hours h \<longrightarrow> get_cached_response tbl' k t = Some v)
      \<and> (now + timedelta_hours h \<le> t \<longrightarrow> get_cached_response tbl' k t = None))
 \<and> (\<forall>r. map_of tbl k = Some r \<and> ac_expires_at r \<le> t \<longrightarrow>
        get_cached_response tbl k t = None)
 \<and> (\<forall>db'. set_web_cache md5 db u page h now now' = Inr db' \<longrightarrow>
      (\<exists>r. map_of (web_cache db') (md5 u) = Some r
           \<and> web_expires_at r = now + timedelta_hours h \<and> content r = page)
      \<and> (t < now + timedelta_hours h \<longrightarrow> snd (get_web_cache md5 db' u t) = Some page)
      \<and> (now + timedelta_hours h \<le> t \<longrightarrow> snd (get_web_cache md5 db' u t) = None))
 \<and> (\<forall>r. map_of (web_cache db) (md5 u) = Some r \<and> web_expires_at r \<le> t \<longrightarrow>
        snd (get_web_cache md5 db u t) = None)
 \<and> ((\<exists>db'. set_api_cache db k an ep ps v h now now' = Inr db')
      = (- 999999999 \<le> h div 24 \<and> h div 24 \<le> 999999999
         \<and> 0 \<le> now + timedelta_hours h \<and> now + timedelta_hours h \<le> datetime_max))
 \<and> ((\<exists>tbl'. cache_response tbl k an ep v h now now' = Inr tbl')
      = (- 999999999 \<le> h div 24 \<and> h div 24 \<le> 999999999
         \<and> 0 \<le> now + timedelta_hours h \<and> now + timedelta_hours h \<le> datetime_max))
 \<and> ((\<exists>db'. set_web_cache md5 db u page h now now' = Inr db')
      = (- 999999999 \<le> h div 24 \<and> h div 24 \<le> 999999999
         \<and> 0 \<le> now + timedelta_hours h \<and> now + timedelta_hours h \<le> datetime_max))
 \<and> (\<forall>x. set_api_cache db k an ep ps v h now now' = Inl x
          \<or> cache_response tbl k an ep v h now now' = Inl x
          \<or> set_web_cache md5 db u page h now now' = Inl x \<longrightarrow> x = OverflowError)"
proof -
  have a: "\<forall>db'. set_api_cache db k an ep ps v h now now' = Inr db' \<longrightarrow>
      (\<exists>r. map_of (api_cache db') k = Some r \<and> expires_at r = now + timedelta_hours h
           \<and> response_data r = v)
      \<and> (t < now + timedelta_hours h \<longrightarrow> snd (get_api_cache db' k t) = Some v)
      \<and> (now + timedelta_hours h \<le> t \<longrightarrow> snd (get_api_cache db' k t) = None)"
    by (simp add: set_api_cache_stored get_api_cache_def map_of_update_same)
  have b: "\<forall>r. map_of (api_cache db) k = Some r \<and> expires_at r \<le> t \<longrightarrow>
        snd (get_api_cache db k t) = None"
    by (simp add: get_api_cache_def)
  have c: "\<forall>tbl'. cache_response tbl k an ep v h now now' = Inr tbl' \<longrightarrow>
      (\<exists>r. map_of tbl' k = Some r \<and> ac_expires_at r = now + timedelta_hours h
           \<and> ac_response_data r = v)
      \<and> (t < now + timedelta_hours h \<longrightarrow> get_cached_response tbl' k t = Some v)
      \<and> (now + timedelta_hours h \<le> t \<longrightarrow> get_cached_response tbl' k t = None)"
    by (simp add: cache_response_stored get_cached_response_def map_of_update_same)
  have d: "\<forall>r. map_of tbl k = Some r \<and> ac_expires_at r \<le> t \<longrightarrow>
        get_cached_response tbl k t = None"
    by (simp add: get_cached_response_def)
  have e: "\<forall>db'. set_web_cache md5 db u page h now now' = Inr db' \<longrightarrow>
      (\<exists>r. map_of (web_cache db') (md5 u) = Some r
           \<and> web_expires_at r = now + timedelta_hours h \<and> content r = page)
      \<and> (t < now + timedelta_hours h \<longrightarrow> snd (get_web_cache md5 db' u t) = Some page)
      \<and> (now + timedelta_hours h \<le> t \<longrightarrow> snd (get_web_cache md5 db' u t) = None)"
    by (simp add: set_web_cache_stored get_web_cache_def map_of_update_same)
  have f: "\<forall>r. map_of (web_cache db) (md5 u) = Some r \<and> web_expires_at r \<le> t \<longrightarrow>
        snd (get_web_cache md5 db u t) = None"
    by (simp add: get_web_cache_def)
  have g: "(\<exists>db'. set_api_cache db k an ep ps v h now now' = Inr db')
      = (- 999999999 \<le> h div 24 \<and> h div 24 \<le> 999999999
         \<and> 0 \<le> now + timedelta_hours h \<and> now + timedelta_hours h \<le> datetime_max)"
    "(\<exists>tbl'. cache_response tbl k an ep v h now now' = Inr tbl')
      = (- 999999999 \<le> h div 24 \<and> h div 24 \<le> 999999999
         \<and> 0 \<le> now + timedelta_hours h \<and> now + timedelta_hours h \<le> datetime_max)"
    "(\<exists>db'. set_web_cache md5 db u page h now now' = Inr db')
      = (- 999999999 \<le> h div 24 \<and> h div 24 \<le> 999999999
         \<and> 0 \<le> now + timedelta_hours h \<and> now + timedelta_hours h \<le> datetime_max)"
    by (simp_all add: set_api_cache_stored cache_response_stored set_web_cache_stored
          expires_after_cases)
  have i: "\<forall>x. set_api_cache db k an ep ps v h now now' = Inl x
          \<or> cache_response tbl k an ep v h now now' = Inl x
          \<or> set_web_cache md5 db u page h now now' = Inl x \<longrightarrow> x = OverflowError"
    by (auto simp add: setters_raise_overflow_only expires_after_cases)
  from a b c d e f g i show ?thesis by blast
qed

theorem set_get_before_expiry_witness:
  "(\<exists>db'. set_api_cache example_db ''k2'' ''openweather'' ''weather'' () ''rain'' 6 0 1 = Inr db'
      \<and> (5::int) < 0 + timedelta_hours 6
      \<and> snd (get_api_cache db' ''k2'' 5) = Some ''rain''
      \<and> (0::int) + timedelta_hours 6 \<le> 21600000000
      \<and> snd (get_api_cache db' ''k2'' 21600000000) = None)
 \<and> (map_of (api_cache example_db) ''k1'' = Some example_row \<and> expires_at example_row \<le> 100
      \<and> snd (get_api_cache example_db ''k1'' 100) = None)
 \<and> (\<exists>tbl'. cache_response [(''k1'', example_cached)] ''k2'' ''openweather'' ''weather'' ''rain''
              6 0 1 = Inr tbl'
      \<and> get_cached_response tbl' ''k2'' 5 = Some ''rain''
      \<and> get_cached_response tbl' ''k2'' 21600000000 = None)
 \<and> (map_of [(''k1'', example_cached)] ''k1'' = Some example_cached
      \<and> ac_expires_at example_cached \<le> 100
      \<and> get_cached_response [(''k1'', example_cached)] ''k1'' 100 = None)
 \<and> (\<exists>db'. set_web_cache (\<lambda>s. s) example_db ''https://vietnam.travel/'' ''page'' 6 0 1 = Inr db'
      \<and> snd (get_web_cache (\<lambda>s. s) db' ''https://vietnam.travel/'' 5) = Some ''page''
      \<and> snd (get_web_cache (\<lambda>s. s) db' ''https://vietnam.travel/'' 21600000000) = None)
 \<and> set_api_cache example_db ''k2'' ''openweather'' ''weather'' () ''rain'' 1000000000 0 1
      = Inl OverflowError
 \<and> cache_response [(''k1'', example_cached)] ''k2'' ''openweather'' ''weather'' ''rain''
      1000000000 0 1 = Inl OverflowError
 \<and> set_web_cache (\<lambda>s. s) example_db ''https://vietnam.travel/'' ''page'' 1000000000 0 1
      = Inl OverflowError"
  using set_get_before_expiry
    [of example_db "''k2''" "''openweather''" "''weather''" "()" "''rain''" 6 0 1 5
        "[(''k1'', example_cached)]" "\<lambda>s. s" "''https://vietnam.travel/''" "''page''"]
    set_get_before_expiry
    [of example_db "''k2''" "''openweather''" "''weather''" "()" "''rain''" 6 0 1 21600000000
        "[(''k1'', example_cached)]" "\<lambda>s. s" "''https://vietnam.travel/''" "''page''"]
    set_get_before_expiry
    [of example_db "''k1''" "''openweather''" "''weather''" "()" "''rain''" 6 0 1 100
        "[(''k1'', example_cached)]"]
  by (simp add: set_api_cache_def cache_response_def set_web_cache_def expires_after_def
        get_api_cache_def get_cached_response_def get_web_cache_def
        timedelta_hours_def datetime_max_def example_db_def example_row_def example_cached_def)

text \<open>
  Claim C10.  On a hit (the key has a row whose \<open>expires_at\<close> is after the clock
  reading) \<open>get_api_cache\<close> returns the row's response, replaces the row by the same
  row with \<open>hit_count\<close> one higher (so the response, \<open>created_at\<close> and
  \<open>expires_at\<close> keep their values), leaves every other key's row, the order of the
  keys and the table \<open>web_cache\<close> as they were; on a miss (no row, or a row that has
  expired) the database is returned unchanged together with \<open>None\<close>.
\<close>

theorem get_api_cache_frame:
  "(\<forall>r. map_of (api_cache db) k = Some r \<and> now < expires_at r \<longrightarrow>
      snd (get_api_cache db k now) = Some (response_data r)
      \<and> map_of (api_cache (fst (get_api_cache db k now))) k
            = Some (r\<lparr>hit_count := hit_count r + 1\<rparr>)
      \<and> (\<forall>k'. k' \<noteq> k \<longrightarrow>
            map_of (api_cache (fst (get_api_cache db k now))) k' = map_of (api_cache db) k')
      \<and> map fst (api_cache (fst (get_api_cache db k now))) = map fst (api_cache db)
      \<and> web_cache (fst (get_api_cache db k now)) = web_cache db)
 \<and> (map_of (api_cache db) k = None \<longrightarrow> get_api_cache db k now = (db, None))
 \<and> (\<forall>r. map_of (api_cache db) k = Some r \<and> expires_at r \<le> now \<longrightarrow>
      get_api_cache db k now = (db, None))"
  by (auto simp add: get_api_cache_def map_of_update_same map_of_update_other
        update_keys_present)

theorem get_api_cache_frame_witness:
  "(map_of (api_cache example_db) ''k1'' = Some example_row \<and> 99 < expires_at example_row
      \<and> snd (get_api_cache example_db ''k1'' 99) = Some ''sunny''
      \<and> map_of (api_cache (fst (get_api_cache example_db ''k1'' 99))) ''k1''
            = Some (example_row\<lparr>hit_count := 8\<rparr>)
      \<and> map_of (api_cache (fst (get_api_cache example_db ''k1'' 99))) ''k2''
            = map_of (api_cache example_db) ''k2'')
 \<and> (map_of (api_cache example_db) ''k2'' = None
      \<and> get_api_cache example_db ''k2'' 99 = (example_db, None))
 \<and> (expires_at example_row \<le> 100 \<and> get_api_cache example_db ''k1'' 100 = (example_db, None))"
  using get_api_cache_frame [of example_db "''k1''" 99]
    get_api_cache_frame [of example_db "''k2''" 99]
    get_api_cache_frame [of example_db "''k1''" 100]
  by (simp add: example_db_def example_row_def)

text \<open>
  What the eviction of \<open>clear_expired_cache\<close> does: a row is deleted exactly when
  its \<open>expires_at\<close> is strictly before the clock reading, and the counts are the
  numbers of deleted rows.
\<close>

lemma clear_expired_cache_rows:
  "api_cache (fst (clear_expired_cache db now now'))
     = filter (\<lambda>(k, r). now \<le> expires_at r) (api_cache db)
 \<and> api_cache_deleted (snd (clear_expired_cache db now now'))
     = length (api_cache db) - length (api_cache (fst (clear_expired_cache db now now')))
 \<and> web_cache_deleted (snd (clear_expired_cache db now now'))
     = length (web_cache db) - length (web_cache (fst (clear_expired_cache db now now')))
 \<and> total_deleted (snd (clear_expired_cache db now now'))
     = api_cache_deleted (snd (clear_expired_cache db now now'))
       + web_cache_deleted (snd (clear_expired_cache db now now'))"
proof -
  have eq: "(\<lambda>(k, r). \<not> expires_at r < now) = (\<lambda>(k, r :: ('a, 'b) api_cache_row). now \<le> expires_at r)"
    by (auto simp add: fun_eq_iff)
  have len: "length (filter P xs) = length xs - length (filter (\<lambda>x. \<not> P x) xs)" for P and xs :: "'c list"
    using sum_length_filter_compl [of P xs] by simp
  have neg: "(\<lambda>x. \<not> (case x of (k, r) \<Rightarrow> Q r)) = (\<lambda>(k, r). \<not> Q r)" for Q :: "'d \<Rightarrow> bool"
    by (auto simp add: fun_eq_iff)
  show ?thesis
    unfolding clear_expired_cache_def Let_def
    by (simp add: eq len [of "\<lambda>(k, r). expires_at r < now"] len [of "\<lambda>(k, r). web_expires_at r < now'"] neg)
qed

text \<open>
  Claim C7, at the boundary.  A row whose \<open>expires_at\<close> equals the clock reading is
  already a miss for \<open>get_api_cache\<close> and \<open>_get_cached_response\<close>, yet neither
  \<open>DualDatabaseManager.clear_expired_cache\<close> nor \<open>APICollector.clear_expired_cache\<close>
  deletes it: both report zero deleted rows and keep the table as it is.
\<close>

theorem clear_expired_cache_boundary:
  "expires_at example_row = 100
 \<and> snd (get_api_cache example_db ''k1'' 100) = None
 \<and> clear_expired_cache example_db 100 100
     = (example_db, \<lparr>api_cache_deleted = 0, web_cache_deleted = 0, total_deleted = 0\<rparr>)
 \<and> ac_expires_at example_cached = 100
 \<and> get_cached_response [(''k1'', example_cached)] ''k1'' 100 = None
 \<and> collector_clear_expired_cache [(''k1'', example_cached)] 100
     = ([(''k1'', example_cached)], 0)"
  by (simp add: get_api_cache_def clear_expired_cache_def get_cached_response_def
        collector_clear_expired_cache_def example_db_def example_row_def example_cached_def)

section \<open>Properties of the cache key\<close>

lemma alist_canonical:
  "distinct (map fst xs) \<Longrightarrow> xs = map (\<lambda>k. (k, the (map_of xs k))) (map fst xs)"
proof (induction xs)
  case Nil
  then show ?case by simp
next
  case (Cons a xs)
  then have "xs = map (\<lambda>k. (k, the (map_of xs k))) (map fst xs)" by simp
  moreover have "map (\<lambda>k. (k, the (map_of xs k))) (map fst xs)
      = map (\<lambda>k. (k, the (map_of (a # xs) k))) (map fst xs)"
    using Cons.prems by (intro map_cong) (auto simp add: image_iff)
  ultimately show ?case by (cases a) simp
qed

text \<open>Sorting by key forgets the order in which a dictionary was built.\<close>

lemma sort_key_fst_unique:
  fixes ps qs :: "('k :: linorder \<times> 'v) list"
  assumes "distinct (map fst ps)" "distinct (map fst qs)" "map_of ps = map_of qs"
  shows "sort_key fst ps = sort_key fst qs"
proof -
  let ?P = "sort_key fst ps" and ?Q = "sort_key fst qs"
  have sets: "set ps = set qs"
    using assms by (simp add: map_of_inject_set)
  have dP: "distinct (map fst ?P)" and dQ: "distinct (map fst ?Q)"
    using assms(1,2) by (simp_all add: distinct_map)
  have keys: "map fst ?P = map fst ?Q"
    by (rule sorted_distinct_set_unique) (use dP dQ sets in simp_all)
  have "map_of ?P = map_of ?Q"
    using dP dQ sets by (simp add: map_of_inject_set)
  then show ?thesis
    using alist_canonical [OF dP] alist_canonical [OF dQ] keys by simp
qed

lemma dumps_hotel_params:
  "dumps quoted (JDict hotel_params)
     = ''{'' @ quoted ''query'' @ '': '' @ quoted ''hotels in Hue'' @ '', ''
         @ quoted ''radius'' @ '': 5000, '' @ quoted ''type'' @ '': '' @ quoted ''lodging'' @ ''}''"
  by (simp add: hotel_params_def str_int_def digit_char_def)

text \<open>
  Claim C3.  Two parameter dictionaries that are equal as maps (the same keys with the
  same values) but were built in different orders give the same cache key, whatever
  the API name and the endpoint.
\<close>

theorem generate_cache_key_order_invariant:
  assumes "distinct (map fst ps)" and "distinct (map fst qs)" and "map_of ps = map_of qs"
  shows "generate_cache_key md5 enc an ep ps = generate_cache_key md5 enc an ep qs"
  using sort_key_fst_unique [OF assms] by (simp add: generate_cache_key_def)

theorem generate_cache_key_order_invariant_witness:
  "distinct (map fst hotel_params) \<and> distinct (map fst hotel_params_reordered)
 \<and> map_of hotel_params = map_of hotel_params_reordered
 \<and> hotel_params \<noteq> hotel_params_reordered
 \<and> generate_cache_key (\<lambda>s. s) quoted ''google_places'' ''textsearch/json'' hotel_params
     = generate_cache_key (\<lambda>s. s) quoted ''google_places'' ''textsearch/json''
         hotel_params_reordered"
proof -
  have d1: "distinct (map fst hotel_params)"
    by (simp add: hotel_params_def)
  have d2: "distinct (map fst hotel_params_reordered)"
    by (simp add: hotel_params_reordered_def)
  have m: "map_of hotel_params = map_of hotel_params_reordered"
    by (auto simp add: hotel_params_def hotel_params_reordered_def fun_eq_iff)
  have n: "hotel_params \<noteq> hotel_params_reordered"
    by (simp add: hotel_params_def hotel_params_reordered_def)
  from generate_cache_key_order_invariant [OF d1 d2 m] d1 d2 m n show ?thesis
    by blast
qed

section \<open>Properties of the stages and of the workflow engine\<close>

lemma node_success:
  "body s state = Inr v \<Longrightarrow>
   steps_completed (node body s state)
     = Some ((case steps_completed state of None \<Rightarrow> [] | Some xs \<Rightarrow> xs) @ [stage_name s])
   \<and> errors (node body s state) = errors state"
  by (simp add: node_def mark_step_def get_list_def)

lemma node_failure:
  "body s state = Inl e \<Longrightarrow>
   errors (node body s state)
     = Some ((case errors state of None \<Rightarrow> [] | Some ys \<Rightarrow> ys)
             @ [error_label s @ '' error: '' @ e])
   \<and> steps_completed (node body s state) = steps_completed state"
  by (simp add: node_def get_list_def)

lemma node_keeps_prefix:
  "(steps_completed state = Some xs \<longrightarrow>
      (\<exists>zs. steps_completed (node body s state) = Some (xs @ zs)))
 \<and> (errors state = Some ys \<longrightarrow> (\<exists>zs. errors (node body s state) = Some (ys @ zs)))"
  by (cases "body s state") (simp_all add: node_def mark_step_def get_list_def)

lemma run_stages_keeps_steps:
  "steps_completed state = Some xs \<Longrightarrow>
   \<exists>zs. steps_completed (run_stages body order state) = Some (xs @ zs)"
proof (induction order arbitrary: state xs)
  case Nil
  then show ?case by (simp add: run_stages_def)
next
  case (Cons s order)
  from node_keeps_prefix [of state xs body s] Cons.prems obtain zs
    where "steps_completed (node body s state) = Some (xs @ zs)" by blast
  from Cons.IH [OF this] show ?case
    unfolding run_stages_def by auto
qed

lemma run_stages_keeps_errors:
  "errors state = Some ys \<Longrightarrow>
   \<exists>zs. errors (run_stages body order state) = Some (ys @ zs)"
proof (induction order arbitrary: state ys)
  case Nil
  then show ?case by (simp add: run_stages_def)
next
  case (Cons s order)
  from node_keeps_prefix [of state _ body s ys] Cons.prems obtain zs
    where "errors (node body s state) = Some (ys @ zs)" by blast
  from Cons.IH [OF this] show ?case
    unfolding run_stages_def by auto
qed

text \<open>
  Claim C9.  A stage function changes the two tracking lists in one of two ways.  When
  its body succeeds, \<open>steps_completed\<close> becomes the list it held before followed by
  the stage's own name (the name alone when the key was absent) and \<open>errors\<close> is
  left as it is; when its body raises, \<open>errors\<close> becomes the list it held before
  followed by one tagged message (the message alone when the key was absent) and
  \<open>steps_completed\<close> is left as it is.  Hence after any sequence of stage functions
  the lists \<open>steps_completed\<close> and \<open>errors\<close> of the starting state are still
  there, element by element and in order, at the front of the lists of the final
  state.
\<close>

theorem stage_appends_only:
  "(body s state = Inr v \<longrightarrow>
      (\<forall>xs. steps_completed state = Some xs \<longrightarrow>
         steps_completed (node body s state) = Some (xs @ [stage_name s]))
    \<and> (steps_completed state = None \<longrightarrow>
         steps_completed (node body s state) = Some [stage_name s])
    \<and> errors (node body s state) = errors state)
 \<and> (body s state = Inl e \<longrightarrow>
      (\<forall>ys. errors state = Some ys \<longrightarrow>
         errors (node body s state) = Some (ys @ [error_label s @ '' error: '' @ e]))
    \<and> (errors state = None \<longrightarrow>
         errors (node body s state) = Some [error_label s @ '' error: '' @ e])
    \<and> steps_completed (node body s state) = steps_completed state)
 \<and> (\<forall>xs. steps_completed state = Some xs \<longrightarrow>
      (\<exists>zs. steps_completed (run_stages body order state) = Some (xs @ zs)))
 \<and> (\<forall>ys. errors state = Some ys \<longrightarrow>
      (\<exists>zs. errors (run_stages body order state) = Some (ys @ zs)))"
proof -
  have a: "body s state = Inr v \<longrightarrow>
      (\<forall>xs. steps_completed state = Some xs \<longrightarrow>
         steps_completed (node body s state) = Some (xs @ [stage_name s]))
    \<and> (steps_completed state = None \<longrightarrow>
         steps_completed (node body s state) = Some [stage_name s])
    \<and> errors (node body s state) = errors state"
    using node_success [of body s state v] by auto
  have b: "body s state = Inl e \<longrightarrow>
      (\<forall>ys. errors state = Some ys \<longrightarrow>
         errors (node body s state) = Some (ys @ [error_label s @ '' error: '' @ e]))
    \<and> (errors state = None \<longrightarrow>
         errors (node body s state) = Some [error_label s @ '' error: '' @ e])
    \<and> steps_completed (node body s state) = steps_completed state"
    using node_failure [of body s state e] by auto
  have c: "\<forall>xs. steps_completed state = Some xs \<longrightarrow>
      (\<exists>zs. steps_completed (run_stages body order state) = Some (xs @ zs))"
    using run_stages_keeps_steps [of state _ body order] by blast
  have d: "\<forall>ys. errors state = Some ys \<longrightarrow>
      (\<exists>zs. errors (run_stages body order state) = Some (ys @ zs))"
    using run_stages_keeps_errors [of state _ body order] by blast
  from a b c d show ?thesis by blast
qed

theorem stage_appends_only_witness:
  "failing_price_predictor data_processor started_state = Inr ()
 \<and> steps_completed started_state = Some [''api_collector'']
 \<and> errors started_state = Some [''Web Scraper error: timeout'']
 \<and> steps_completed (node failing_price_predictor data_processor started_state)
     = Some [''api_collector'', ''data_processor'']
 \<and> errors (node failing_price_predictor data_processor started_state)
     = Some [''Web Scraper error: timeout'']
 \<and> failing_price_predictor price_predictor started_state = Inl ''division by zero''
 \<and> errors (node failing_price_predictor price_predictor started_state)
     = Some [''Web Scraper error: timeout'', ''Price Predictor error: division by zero'']
 \<and> steps_completed (node failing_price_predictor price_predictor started_state)
     = Some [''api_collector'']
 \<and> failing_price_predictor api_collector empty_state = Inr ()
 \<and> steps_completed empty_state = None
 \<and> steps_completed (node failing_price_predictor api_collector empty_state)
     = Some [''api_collector'']
 \<and> (\<exists>zs. steps_completed (run_stages failing_price_predictor nodes started_state)
            = Some ([''api_collector''] @ zs))
 \<and> (\<exists>zs. errors (run_stages failing_price_predictor nodes started_state)
            = Some ([''Web Scraper error: timeout''] @ zs))"
proof -
  have 1: "failing_price_predictor data_processor started_state = Inr ()
      \<and> failing_price_predictor price_predictor started_state = Inl ''division by zero''
      \<and> failing_price_predictor api_collector empty_state = Inr ()"
    by (simp add: failing_price_predictor_def)
  have 2: "steps_completed started_state = Some [''api_collector'']
      \<and> errors started_state = Some [''Web Scraper error: timeout'']
      \<and> steps_completed empty_state = None"
    by (simp add: started_state_def empty_state_def)
  from stage_appends_only [of failing_price_predictor data_processor started_state "()" _ nodes]
    1 2
  have 3: "steps_completed (node failing_price_predictor data_processor started_state)
        = Some ([''api_collector''] @ [stage_name data_processor])
      \<and> errors (node failing_price_predictor data_processor started_state)
        = Some [''Web Scraper error: timeout'']
      \<and> (\<exists>zs. steps_completed (run_stages failing_price_predictor nodes started_state)
            = Some ([''api_collector''] @ zs))
      \<and> (\<exists>zs. errors (run_stages failing_price_predictor nodes started_state)
            = Some ([''Web Scraper error: timeout''] @ zs))"
    by simp
  from stage_appends_only
    [of failing_price_predictor price_predictor started_state _ "''division by zero''"] 1 2
  have 4: "errors (node failing_price_predictor price_predictor started_state)
        = Some ([''Web Scraper error: timeout'']
                @ [error_label price_predictor @ '' error: '' @ ''division by zero''])
      \<and> steps_completed (node failing_price_predictor price_predictor started_state)
        = Some [''api_collector'']"
    by simp
  from stage_appends_only [of failing_price_predictor api_collector empty_state "()"] 1 2
  have 5: "steps_completed (node failing_price_predictor api_collector empty_state)
        = Some [stage_name api_collector]"
    by simp
  from 1 2 3 4 5 show ?thesis by simp
qed

text \<open>
  A run in which the body of \<open>f\<close> raises \<open>msg\<close> and every other body succeeds:
  each occurrence of \<open>f\<close> in the order adds its message, each other stage its name.
\<close>

lemma run_stages_single_failure:
  assumes fails: "\<forall>state. body f state = Inl msg"
    and others: "\<forall>s state. s \<noteq> f \<longrightarrow> (\<exists>v. body s state = Inr v)"
  shows "get_list (errors (run_stages body order state))
           = get_list (errors state)
             @ map (\<lambda>s. error_label s @ '' error: '' @ msg) (filter (\<lambda>s. s = f) order)
       \<and> get_list (steps_completed (run_stages body order state))
           = get_list (steps_completed state) @ map stage_name (filter (\<lambda>s. s \<noteq> f) order)"
proof (induction order arbitrary: state)
  case Nil
  show ?case by (simp add: run_stages_def)
next
  case (Cons s order)
  show ?case
  proof (cases "s = f")
    case True
    with fails have "node body s state
        = state\<lparr>errors := Some (get_list (errors state) @ [error_label f @ '' error: '' @ msg])\<rparr>"
      by (simp add: node_def)
    with Cons.IH [of "node body s state"] True show ?thesis
      by (simp add: run_stages_def get_list_def)
  next
    case False
    with others obtain v where "body s state = Inr v" by blast
    then have "node body s state
        = mark_step (stage_name s) (state\<lparr>entries := (entries state)(result_field s \<mapsto> v)\<rparr>)"
      by (simp add: node_def)
    with Cons.IH [of "node body s state"] False show ?thesis
      by (simp add: run_stages_def mark_step_def get_list_def)
  qed
qed

lemma filter_eq_single: "distinct xs \<Longrightarrow> f \<in> set xs \<Longrightarrow> filter (\<lambda>s. s = f) xs = [f]"
  by (induction xs) (auto simp add: filter_empty_conv)

lemma stage_name_inj: "stage_name s = stage_name t \<Longrightarrow> s = t"
  by (cases s; cases t) simp_all

lemma nodes_all: "s \<in> set nodes"
  by (cases s) (simp_all add: nodes_def)

lemma nodes_distinct: "distinct nodes"
  by (simp add: nodes_def)

lemma nodes_schedule: "schedule nodes"
  by (simp add: schedule_def nodes_def edges_def)

text \<open>
  The loop of the workflow engine ends at a step whose agent call raises: the steps
  after it are not looked at.
\<close>

lemma engine_stops_at_raising_step:
  "execute_agent_step agent_registry now step current_data = Inl e
   \<and> dict_get step ''type'' (PStr ''agent_call'') = PStr ''agent_call''
   \<longrightarrow> execute_workflow_steps agent_registry now (step # steps) current_data aw
       = (AList.update ''error'' (PStr e) current_data,
          aw\<lparr>current_step := Some (dict_get step ''name'' (PStr ''unknown''))\<rparr>)"
  by (simp add: Let_def)

text \<open>
  Claim C1, as the code has it.  For the stage functions of the workflow graph: when
  the stages run one after another in a schedule of the graph, the body of one stage
  \<open>f\<close> other than the sink raises \<open>msg\<close> and the other bodies succeed, then the run
  returns a state whose \<open>errors\<close> is the starting list followed by the one message
  \<open>"<label of f> error: msg"\<close>, and whose \<open>steps_completed\<close> is the starting list
  followed by the names of all other stages in schedule order; so every stage other
  than \<open>f\<close>, the sink \<open>analytics_engine\<close> among them, has run.  The workflow engine
  is different: its loop stops at the first step that raises, stores the message under
  \<open>"error"\<close> and runs no later step.
\<close>

theorem single_failure_contained:
  assumes "schedule order" and "f \<noteq> sink"
    and "\<forall>state. body f state = Inl msg"
    and "\<forall>s state. s \<noteq> f \<longrightarrow> (\<exists>v. body s state = Inr v)"
  shows "get_list (errors (run_stages body order state))
           = get_list (errors state) @ [error_label f @ '' error: '' @ msg]
       \<and> get_list (steps_completed (run_stages body order state))
           = get_list (steps_completed state) @ map stage_name (filter (\<lambda>s. s \<noteq> f) order)
       \<and> (\<forall>s. s \<noteq> f \<longrightarrow>
             stage_name s \<in> set (get_list (steps_completed (run_stages body order state))))
       \<and> stage_name sink \<in> set (get_list (steps_completed (run_stages body order state)))
       \<and> stage_name f \<notin> set (map stage_name (filter (\<lambda>s. s \<noteq> f) order))
       \<and> (execute_agent_step agent_registry now step current_data = Inl e
            \<and> dict_get step ''type'' (PStr ''agent_call'') = PStr ''agent_call''
          \<longrightarrow> execute_workflow_steps agent_registry now (step # steps) current_data aw
               = (AList.update ''error'' (PStr e) current_data,
                  aw\<lparr>current_step := Some (dict_get step ''name'' (PStr ''unknown''))\<rparr>))"
proof -
  from assms(1) have d: "distinct order" and all: "\<And>s. s \<in> set order"
    using nodes_all by (simp_all add: schedule_def)
  have one: "filter (\<lambda>s. s = f) order = [f]"
    using d all by (rule filter_eq_single)
  have present: "stage_name s \<in> set (map stage_name (filter (\<lambda>s. s \<noteq> f) order))"
    if "s \<noteq> f" for s
    using that all [of s] by simp
  have absent: "stage_name f \<notin> set (map stage_name (filter (\<lambda>s. s \<noteq> f) order))"
    using stage_name_inj by auto
  from run_stages_single_failure [OF assms(3,4), of order state] one
    present present [of sink] assms(2) absent
    engine_stops_at_raising_step [of agent_registry now step current_data e steps aw]
  show ?thesis by simp
qed

theorem single_failure_contained_witness:
  "schedule nodes \<and> price_predictor \<noteq> sink
 \<and> get_list (errors (run_stages failing_price_predictor nodes empty_state))
     = [''Price Predictor error: division by zero'']
 \<and> get_list (steps_completed (run_stages failing_price_predictor nodes empty_state))
     = [''api_collector'', ''web_scraper'', ''data_processor'', ''recommendation'',
        ''sentiment_analyzer'', ''similarity_engine'', ''planner'', ''researcher'',
        ''analytics_engine'']
 \<and> execute_agent_step [''collector'', ''planner'', ''reporter''] ''t0'' (three_steps ! 1) []
     = Inl (''unhashable type: '' @ sq ''list'')
 \<and> execute_workflow_steps [''collector'', ''planner'', ''reporter''] ''t0''
       (three_steps ! 1 # [three_steps ! 2]) []
       \<lparr>status = ''running'', current_step = None, wf_steps_completed = []\<rparr>
     = ([(''error'', PStr (''unhashable type: '' @ sq ''list''))],
        \<lparr>status = ''running'', current_step = Some (PStr ''plan''), wf_steps_completed = []\<rparr>)"
proof -
  have s: "schedule nodes" by (rule nodes_schedule)
  have n: "price_predictor \<noteq> sink" by (simp add: sink_def)
  have f: "\<forall>state. failing_price_predictor price_predictor state = Inl ''division by zero''"
    by (simp add: failing_price_predictor_def)
  have o: "\<forall>s state. s \<noteq> price_predictor \<longrightarrow> (\<exists>v. failing_price_predictor s state = Inr v)"
    by (simp add: failing_price_predictor_def)
  have r: "execute_agent_step [''collector'', ''planner'', ''reporter''] ''t0'' (three_steps ! 1) []
      = Inl (''unhashable type: '' @ sq ''list'')"
    by (simp add: three_steps_def execute_agent_step_def dict_get_def)
  have t: "dict_get (three_steps ! 1) ''type'' (PStr ''agent_call'') = PStr ''agent_call''"
    by (simp add: three_steps_def dict_get_def)
  have m: "dict_get (three_steps ! 1) ''name'' (PStr ''unknown'') = PStr ''plan''"
    by (simp add: three_steps_def dict_get_def)
  from single_failure_contained [OF s n f o,
      of empty_state "[''collector'', ''planner'', ''reporter'']" "''t0''" "three_steps ! 1" "[]"
         "''unhashable type: '' @ sq ''list''" "[three_steps ! 2]"
         "\<lparr>status = ''running'', current_step = None, wf_steps_completed = []\<rparr>"]
    s n r t m
  show ?thesis
    by (simp add: nodes_def empty_state_def get_list_def)
qed

text \<open>
  Claim C1 fails for the workflow engine.  With all three agents registered, the agent
  call of the second step raises \<open>TypeError\<close>; the run returns with status
  \<open>"completed"\<close>, the message is stored under \<open>"error"\<close> without the name of the
  step, and the third step has not run.
\<close>

theorem engine_skips_steps_after_failure:
  "execute_agent_step [''collector'', ''planner'', ''reporter''] ''t0'' (three_steps ! 1)
      [(''destination'', PStr ''Hue'')]
     = Inl (''unhashable type: '' @ sq ''list'')
 \<and> execute_workflow [''collector'', ''planner'', ''reporter''] ''t0'' three_steps
      [(''destination'', PStr ''Hue'')]
     = ([(''destination'', PStr ''Hue''),
         (''collector_result'', PStr ''Executed collector successfully''),
         (''collector_timestamp'', PStr ''t0''),
         (''collector_status'', PStr ''success''),
         (''error'', PStr (''unhashable type: '' @ sq ''list''))],
        \<lparr>status = ''completed'', current_step = Some (PStr ''plan''),
         wf_steps_completed = [PStr ''collect'']\<rparr>)
 \<and> PStr ''report''
     \<notin> set (wf_steps_completed
              (snd (execute_workflow [''collector'', ''planner'', ''reporter''] ''t0'' three_steps
                      [(''destination'', PStr ''Hue'')])))"
  by (simp add: execute_workflow_def three_steps_def execute_agent_step_def dict_get_def
        dict_update_def Let_def)

section \<open>Properties of the dispatch of the stages\<close>

lemma upstream_planner:
  "upstream planner = [recommendation, sentiment_analyzer, similarity_engine, price_predictor]"
  by (simp add: upstream_def edges_def)

lemma run_events_append:
  "run_events c (xs @ ys) = (case run_events c xs of None \<Rightarrow> None | Some c' \<Rightarrow> run_events c' ys)"
  by (induction xs arbitrary: c) simp_all

lemma fire_waiting: "enabled c e \<Longrightarrow> fire c e s = Waiting \<Longrightarrow> c s = Waiting"
  by (cases e) (auto split: if_splits)

lemma dispatch_count:
  "run_events c evs = Some c' \<Longrightarrow>
   count_list evs (Dispatch s) \<le> (if c s = Waiting then 1 else 0)"
proof (induction evs arbitrary: c)
  case Nil
  then show ?case by simp
next
  case (Cons e evs)
  then have en: "enabled c e" and rest: "run_events (fire c e) evs = Some c'"
    by (simp_all split: if_splits)
  show ?case
  proof (cases "e = Dispatch s")
    case True
    with en have "c s = Waiting" and "fire c e s \<noteq> Waiting" by simp_all
    with Cons.IH [OF rest] True show ?thesis by simp
  next
    case False
    from Cons.IH [OF rest] fire_waiting [OF en, of s] False show ?thesis
      by (auto split: if_splits)
  qed
qed

lemma terminal_needs_finish:
  "run_events c evs = Some c' \<Longrightarrow> terminal (c' u) \<Longrightarrow>
   terminal (c u) \<or> (\<exists>ok. Finish u ok \<in> set evs)"
proof (induction evs arbitrary: c)
  case Nil
  then show ?case by simp
next
  case (Cons e evs)
  then have en: "enabled c e" and rest: "run_events (fire c e) evs = Some c'"
    by (simp_all split: if_splits)
  from Cons.IH [OF rest Cons.prems(2)] show ?case
    by (cases e) (auto simp add: terminal_def split: if_splits)
qed

lemma left_waiting_needs_dispatch:
  "run_events c evs = Some c' \<Longrightarrow> c s = Waiting \<Longrightarrow> c' s \<noteq> Waiting \<Longrightarrow> Dispatch s \<in> set evs"
proof (induction evs arbitrary: c)
  case Nil
  then show ?case by simp
next
  case (Cons e evs)
  then have en: "enabled c e" and rest: "run_events (fire c e) evs = Some c'"
    by (simp_all split: if_splits)
  show ?case
  proof (cases "e = Dispatch s")
    case True
    then show ?thesis by simp
  next
    case False
    with en Cons.prems(2) have "fire c e s = Waiting"
      by (cases e) auto
    from Cons.IH [OF rest this Cons.prems(3)] show ?thesis by simp
  qed
qed

lemma stuck_all_terminal:
  assumes stuck: "\<forall>e. \<not> enabled c e"
  shows "terminal (c s)"
proof -
  have nr: "c t \<noteq> Running" for t
    using stuck [rule_format, of "Finish t True"] by simp
  have step: "terminal (c t)" if "list_all (\<lambda>u. terminal (c u)) (upstream t)" for t
    using stuck [rule_format, of "Dispatch t"] nr [of t] that
    by (cases "c t") (simp_all add: terminal_def)
  have 1: "terminal (c api_collector)"
    by (rule step) (simp add: upstream_def edges_def)
  have 2: "terminal (c web_scraper)"
    by (rule step) (simp add: upstream_def edges_def 1)
  have 3: "terminal (c data_processor)"
    by (rule step) (simp add: upstream_def edges_def 2)
  have 4: "terminal (c recommendation)" "terminal (c sentiment_analyzer)"
    "terminal (c similarity_engine)" "terminal (c price_predictor)"
    by (rule step, simp add: upstream_def edges_def 3)+
  have 5: "terminal (c planner)"
    by (rule step) (simp add: upstream_def edges_def 4)
  have 6: "terminal (c researcher)"
    by (rule step) (simp add: upstream_def edges_def 5)
  have 7: "terminal (c analytics_engine)"
    by (rule step) (simp add: upstream_def edges_def 6)
  from 1 2 3 4 5 6 7 show ?thesis by (cases s) simp_all
qed

lemma sum_list_update_absent:
  "s \<notin> set xs \<Longrightarrow>
   sum_list (map (\<lambda>x. w ((c(s := v)) x)) xs) = (sum_list (map (\<lambda>x. w (c x)) xs) :: nat)"
  by (induction xs) auto

lemma sum_list_update:
  "distinct xs \<Longrightarrow> s \<in> set xs \<Longrightarrow>
   sum_list (map (\<lambda>x. w ((c(s := v)) x)) xs) + w (c s)
     = sum_list (map (\<lambda>x. w (c x)) xs) + (w v :: nat)"
  by (induction xs) (auto simp add: sum_list_update_absent [unfolded fun_upd_apply])

lemma fire_remaining:
  "enabled c e \<Longrightarrow> Suc (remaining_events (fire c e)) = remaining_events c"
proof (cases e)
  case (Dispatch s)
  assume "enabled c e"
  with Dispatch have "c s = Waiting" by simp
  with sum_list_update [OF nodes_distinct nodes_all, of events_left c s Running] Dispatch
  show ?thesis by (simp add: remaining_events_def)
next
  case (Finish s ok)
  assume "enabled c e"
  with Finish have "c s = Running" by simp
  with sum_list_update [OF nodes_distinct nodes_all, of events_left c s "if ok then Done else Errored"] Finish
  show ?thesis by (simp add: remaining_events_def)
qed

lemma run_length:
  "run_events c evs = Some c' \<Longrightarrow> length evs + remaining_events c' = remaining_events c"
proof (induction evs arbitrary: c)
  case Nil
  then show ?case by simp
next
  case (Cons e evs)
  then have en: "enabled c e" and rest: "run_events (fire c e) evs = Some c'"
    by (simp_all split: if_splits)
  from Cons.IH [OF rest] fire_remaining [OF en] show ?case by simp
qed

lemma remaining_initial: "remaining_events initial = 20"
  by (simp add: remaining_events_def initial_def nodes_def)

lemma overlapping_run_ok: "run_events initial overlapping_run = Some overlapping_final"
  by (simp add: overlapping_run_def initial_def overlapping_final_def upstream_def edges_def
        terminal_def fun_eq_iff) (metis stage.exhaust)

lemma overlapping_final_stuck: "\<not> enabled overlapping_final e"
  by (cases e) (simp_all add: overlapping_final_def)

text \<open>
  Claim C4.  In every run of the dispatch model from the state in which all stages
  wait: \<open>planner\<close> is dispatched at most once; at a dispatch of \<open>planner\<close> each of
  \<open>recommendation\<close>, \<open>sentiment_analyzer\<close>, \<open>similarity_engine\<close> and
  \<open>price_predictor\<close> has already finished (as \<open>Done\<close> or \<open>Errored\<close>); a run has at
  most twenty events, and when it has come to a state in which no event is enabled,
  \<open>planner\<close> has been dispatched exactly once.
\<close>

theorem planner_dispatched_once_after_all_upstream:
  assumes "run_events initial evs = Some c"
  shows "count_list evs (Dispatch planner) \<le> 1
       \<and> (\<forall>pre post. evs = pre @ Dispatch planner # post \<longrightarrow>
             (\<forall>u \<in> set [recommendation, sentiment_analyzer, similarity_engine, price_predictor].
                \<exists>ok. Finish u ok \<in> set pre))
       \<and> ((\<forall>e. \<not> enabled c e) \<longrightarrow> count_list evs (Dispatch planner) = 1)
       \<and> length evs \<le> 20"
proof -
  have a: "count_list evs (Dispatch planner) \<le> 1"
    using dispatch_count [OF assms, of planner] by (simp split: if_splits)
  have b: "\<exists>ok. Finish u ok \<in> set pre"
    if split: "evs = pre @ Dispatch planner # post"
      and u: "u \<in> set [recommendation, sentiment_analyzer, similarity_engine, price_predictor]"
    for pre post u
  proof -
    from assms split obtain c1 where pre: "run_events initial pre = Some c1"
      and en: "enabled c1 (Dispatch planner)"
      by (auto simp add: run_events_append split: option.splits if_splits)
    from en u have "terminal (c1 u)"
      by (simp add: upstream_planner list_all_iff del: set_simps)
    from terminal_needs_finish [OF pre this] show ?thesis
      by (simp add: initial_def terminal_def)
  qed
  have c: "count_list evs (Dispatch planner) = 1" if "\<forall>e. \<not> enabled c e"
  proof -
    from stuck_all_terminal [OF that, of planner] have "c planner \<noteq> Waiting"
      by (auto simp add: terminal_def)
    from left_waiting_needs_dispatch [OF assms _ this] have "Dispatch planner \<in> set evs"
      by (simp add: initial_def)
    then have "count_list evs (Dispatch planner) \<noteq> 0"
      by (simp add: count_list_0_iff)
    with a show ?thesis by simp
  qed
  have d: "length evs \<le> 20"
    using run_length [OF assms] remaining_initial by simp
  from a b c d show ?thesis by blast
qed

theorem planner_dispatched_once_after_all_upstream_witness:
  "run_events initial overlapping_run = Some overlapping_final
 \<and> overlapping_final price_predictor = Errored
 \<and> count_list overlapping_run (Dispatch planner) = 1
 \<and> overlapping_run = take 14 overlapping_run @ Dispatch planner # drop 15 overlapping_run
 \<and> Finish recommendation True \<in> set (take 14 overlapping_run)
 \<and> Finish sentiment_analyzer True \<in> set (take 14 overlapping_run)
 \<and> Finish similarity_engine True \<in> set (take 14 overlapping_run)
 \<and> Finish price_predictor False \<in> set (take 14 overlapping_run)
 \<and> length overlapping_run = 20"
proof -
  have stuck: "\<forall>e. \<not> enabled overlapping_final e"
    using overlapping_final_stuck by blast
  from planner_dispatched_once_after_all_upstream [OF overlapping_run_ok] stuck
  have "count_list overlapping_run (Dispatch planner) = 1"
    by blast
  moreover have "overlapping_run = take 14 overlapping_run @ Dispatch planner # drop 15 overlapping_run"
    by (simp add: overlapping_run_def)
  moreover have "Finish recommendation True \<in> set (take 14 overlapping_run)"
    "Finish sentiment_analyzer True \<in> set (take 14 overlapping_run)"
    "Finish similarity_engine True \<in> set (take 14 overlapping_run)"
    "Finish price_predictor False \<in> set (take 14 overlapping_run)"
    "length overlapping_run = 20"
    by (simp_all add: overlapping_run_def)
  moreover have "overlapping_final price_predictor = Errored"
    by (simp add: overlapping_final_def)
  ultimately show ?thesis
    using overlapping_run_ok by blast
qed

section \<open>Properties of the adapters\<close>

declare make_request.simps [simp del]

lemma expires_after_overflow: "expires_after now h = Inl x \<Longrightarrow> x = OverflowError"
  by (simp add: expires_after_def split: if_splits)

lemma get_cached_content_ok:
  "web_read_fault sc = None \<Longrightarrow> \<exists>cached. get_cached_content sc k now = Inr cached"
  by (simp add: get_cached_content_def)

lemma cache_content_ok:
  "web_write_fault sc = None \<Longrightarrow> expires_after now h = Inr e \<Longrightarrow>
   \<exists>sc1. cache_content sc k u page h now = Inr sc1"
  by (simp add: cache_content_def)

lemma cache_content_raises:
  "web_write_fault sc = None \<Longrightarrow> cache_content sc k u page h now = Inl x \<Longrightarrow>
   expires_after now h = Inl x"
  by (simp add: cache_content_def split: sum.splits)

lemma cache_content_write_fault:
  "web_write_fault sc = Some m \<Longrightarrow>
   cache_content sc k u page h now
     = Inl (case expires_after now h of Inl x \<Rightarrow> x | Inr e \<Rightarrow> SqliteError m)"
  by (simp add: cache_content_def split: sum.splits)

lemma cache_response_io_write_fault:
  "write_fault f = Some m \<Longrightarrow>
   cache_response_io f k an ep resp h now
     = Inl (case expires_after now h of Inl x \<Rightarrow> x | Inr e \<Rightarrow> SqliteError m)"
  by (simp add: cache_response_io_def cache_response_def split: sum.splits)

lemma make_request_bounded:
  "web_read_fault sc = None \<Longrightarrow> web_write_fault sc = None \<Longrightarrow> expires_after now h = Inr e \<Longrightarrow>
   \<exists>res sc' w'. make_request md5 sc w u retries h now = Inr (res, sc', w')
      \<and> requests_made w' \<le> requests_made w + (max_retries sc - retries) + 1"
proof (induction md5 sc w u retries h now rule: make_request.induct)
  case (1 md5 sc w u retries h now)
  from get_cached_content_ok [OF "1.prems"(1)] obtain cached
    where c: "get_cached_content sc (md5 u) now = Inr cached" by blast
  show ?case
  proof (cases "case cached of Some txt \<Rightarrow> txt \<noteq> [] | None \<Rightarrow> False")
    case True
    with c show ?thesis
      by (subst make_request.simps) simp
  next
    case miss: False
    obtain out w1 where h: "http_get w = (out, w1)" by (cases "http_get w")
    then have rm: "requests_made w1 = Suc (requests_made w)"
      by (auto simp add: http_get_def)
    show ?thesis
    proof (cases out)
      case (HttpOk page)
      from cache_content_ok [OF "1.prems"(2,3)] obtain sc1
        where "cache_content sc (md5 u) u page h now = Inr sc1" by blast
      with c miss h HttpOk rm show ?thesis
        by (subst make_request.simps) simp
    next
      case (HttpError m)
      show ?thesis
      proof (cases "retries < max_retries sc")
        case True
        from "1.IH" [OF c miss h [symmetric] HttpError True "1.prems"] rm True
        obtain res sc' w' where
          "make_request md5 sc (w1\<lparr>slept := slept w1 @ [2 ^ retries]\<rparr>) u (retries + 1) h now
             = Inr (res, sc', w')"
          and "requests_made w' \<le> requests_made w + (max_retries sc - retries) + 1"
          by auto
        with c miss h HttpError True show ?thesis
          by (subst make_request.simps) simp
      next
        case False
        with c miss h HttpError rm show ?thesis
          by (subst make_request.simps) simp
      qed
    qed
  qed
qed

lemma make_request_raises:
  "web_read_fault sc = None \<Longrightarrow> web_write_fault sc = None \<Longrightarrow>
   make_request md5 sc w u retries h now = Inl x \<Longrightarrow> expires_after now h = Inl x"
proof (induction md5 sc w u retries h now rule: make_request.induct)
  case (1 md5 sc w u retries h now)
  from get_cached_content_ok [OF "1.prems"(1)] obtain cached
    where c: "get_cached_content sc (md5 u) now = Inr cached" by blast
  show ?case
  proof (cases "case cached of Some txt \<Rightarrow> txt \<noteq> [] | None \<Rightarrow> False")
    case True
    with c have "make_request md5 sc w u retries h now = Inr (cached, sc, w)"
      by (subst make_request.simps) simp
    with "1.prems"(3) show ?thesis by simp
  next
    case miss: False
    obtain out w1 where h: "http_get w = (out, w1)" by (cases "http_get w")
    show ?thesis
    proof (cases out)
      case (HttpOk page)
      with c miss h have "make_request md5 sc w u retries h now
          = (case cache_content sc (md5 u) u page h now of
               Inl e \<Rightarrow> Inl e | Inr sc1 \<Rightarrow> Inr (Some page, sc1, w1))"
        by (subst make_request.simps) simp
      with "1.prems"(3) have "cache_content sc (md5 u) u page h now = Inl x"
        by (simp split: sum.splits)
      with "1.prems"(2) show ?thesis by (rule cache_content_raises)
    next
      case (HttpError m)
      show ?thesis
      proof (cases "retries < max_retries sc")
        case True
        with c miss h HttpError have "make_request md5 sc w u retries h now
            = make_request md5 sc (w1\<lparr>slept := slept w1 @ [2 ^ retries]\<rparr>) u (retries + 1) h now"
          by (subst make_request.simps) simp
        with "1.prems"(3) have
          "make_request md5 sc (w1\<lparr>slept := slept w1 @ [2 ^ retries]\<rparr>) u (retries + 1) h now = Inl x"
          by simp
        from "1.IH" [OF c miss h [symmetric] HttpError True "1.prems"(1,2) this]
        show ?thesis .
      next
        case False
        with c miss h HttpError have "make_request md5 sc w u retries h now = Inr (None, sc, w1)"
          by (subst make_request.simps) simp
        with "1.prems"(3) show ?thesis by simp
      qed
    qed
  qed
qed

lemma make_request_exhausted:
  "web_read_fault sc = None \<Longrightarrow> map_of (web_table sc) (md5 u) = None \<Longrightarrow>
   \<forall>i. \<exists>m. remote w i = HttpError m \<Longrightarrow> retries \<le> max_retries sc \<Longrightarrow>
   make_request md5 sc w u retries h now
     = Inr (None, sc,
            w\<lparr>requests_made := requests_made w + (max_retries sc - retries) + 1,
              slept := slept w @ map (\<lambda>r. 2 ^ r) [retries..<max_retries sc]\<rparr>)"
proof (induction md5 sc w u retries h now rule: make_request.induct)
  case (1 md5 sc w u retries h now)
  have c: "get_cached_content sc (md5 u) now = Inr None"
    using "1.prems"(1,2) by (simp add: get_cached_content_def)
  from "1.prems"(3) obtain m where m: "remote w (requests_made w) = HttpError m" by blast
  let ?w1 = "w\<lparr>requests_made := Suc (requests_made w)\<rparr>"
  have h: "http_get w = (HttpError m, ?w1)"
    using m by (simp add: http_get_def)
  show ?case
  proof (cases "retries < max_retries sc")
    case True
    have "make_request md5 sc (?w1\<lparr>slept := slept ?w1 @ [2 ^ retries]\<rparr>) u (retries + 1) h now
        = Inr (None, sc,
            (?w1\<lparr>slept := slept ?w1 @ [2 ^ retries]\<rparr>)
              \<lparr>requests_made := requests_made (?w1\<lparr>slept := slept ?w1 @ [2 ^ retries]\<rparr>)
                  + (max_retries sc - (retries + 1)) + 1,
               slept := slept (?w1\<lparr>slept := slept ?w1 @ [2 ^ retries]\<rparr>)
                  @ map (\<lambda>r. 2 ^ r) [retries + 1..<max_retries sc]\<rparr>)"
      using "1.prems" True
      by (intro "1.IH" [OF c _ h [symmetric] _ True]) simp_all
    with c h True show ?thesis
      by (subst make_request.simps) (simp add: upt_conv_Cons)
  next
    case False
    with "1.prems"(4) have "retries = max_retries sc" by simp
    with c h show ?thesis
      by (subst make_request.simps) simp
  qed
qed

lemma rate_limit_check_cache: "rate_limit_check c an now = Inr c1 \<Longrightarrow> cache c1 = cache c"
  by (auto simp add: rate_limit_check_def Let_def split: option.splits)

lemma make_api_request_single_attempt:
  "(case make_api_request md5 enc c w an ep ps h now of
      Inr (res, c', w') \<Rightarrow> requests_made w' \<le> Suc (requests_made w)
    | Inl e \<Rightarrow> True)"
  by (auto simp add: make_api_request_def http_get_def Let_def
      split: sum.splits option.splits http_outcome.splits prod.splits)

lemma make_api_request_failed_attempt:
  "read_fault (cache c) = None \<Longrightarrow>
   map_of (table (cache c)) (generate_cache_key md5 enc an ep ps) = None \<Longrightarrow>
   rate_limit_check c an now = Inr c1 \<Longrightarrow> api_keys c1 an = Some k \<Longrightarrow> k \<noteq> [] \<Longrightarrow>
   remote w (requests_made w) = HttpError m \<Longrightarrow>
   make_api_request md5 enc c w an ep ps h now
     = Inr (None, c1, w\<lparr>requests_made := Suc (requests_made w)\<rparr>)"
  by (simp add: make_api_request_def get_cached_response_io_def get_cached_response_def
      http_get_def Let_def)

lemma make_api_request_read_fault:
  "read_fault (cache c) = Some m \<Longrightarrow>
   make_api_request md5 enc c w an ep ps h now = Inl (SqliteError m)"
  by (simp add: make_api_request_def get_cached_response_io_def Let_def)

lemma make_api_request_write_fault:
  "read_fault (cache c) = None \<Longrightarrow>
   map_of (table (cache c)) (generate_cache_key md5 enc an ep ps) = None \<Longrightarrow>
   rate_limit_check c an now = Inr c1 \<Longrightarrow> api_keys c1 an = Some k \<Longrightarrow> k \<noteq> [] \<Longrightarrow>
   remote w (requests_made w) = HttpOk resp \<Longrightarrow> write_fault (cache c) = Some m \<Longrightarrow>
   make_api_request md5 enc c w an ep ps h now
     = Inl (case expires_after now h of Inl x \<Rightarrow> x | Inr e \<Rightarrow> SqliteError m)"
  using rate_limit_check_cache [of c an now c1]
  by (simp add: make_api_request_def get_cached_response_io_def get_cached_response_def
      cache_response_io_write_fault http_get_def Let_def)

lemma make_request_read_fault:
  "web_read_fault sc = Some m \<Longrightarrow> make_request md5 sc w u retries h now = Inl (SqliteError m)"
  by (subst make_request.simps) (simp add: get_cached_content_def)

lemma make_request_write_fault:
  "web_read_fault sc = None \<Longrightarrow> map_of (web_table sc) (md5 u) = None \<Longrightarrow>
   remote w (requests_made w) = HttpOk page \<Longrightarrow> web_write_fault sc = Some m \<Longrightarrow>
   make_request md5 sc w u retries h now
     = Inl (case expires_after now h of Inl x \<Rightarrow> x | Inr e \<Rightarrow> SqliteError m)"
  by (subst make_request.simps)
     (simp add: get_cached_content_def cache_content_write_fault http_get_def)

lemma weather_rate_limit:
  "rate_limit_check weather_collector ''openweather'' 5
     = Inr (weather_collector\<lparr>request_counts := [''openweather'' \<mapsto> 1],
                              last_request_time := [''openweather'' \<mapsto> 5]\<rparr>)"
  by (simp add: rate_limit_check_def weather_collector_def Let_def)

lemma unwritable_rate_limit:
  "rate_limit_check unwritable_collector ''openweather'' 5
     = Inr (unwritable_collector\<lparr>request_counts := [''openweather'' \<mapsto> 1],
                                 last_request_time := [''openweather'' \<mapsto> 5]\<rparr>)"
  by (simp add: rate_limit_check_def unwritable_collector_def weather_collector_def Let_def)

lemma expiry_in_range: "expires_after 5 6 = Inr 21600000005"
  by (simp add: expires_after_def timedelta_hours_def datetime_max_def)

text \<open>
  Claim C5, as the code has it.  \<open>WebScraper._make_request\<close>: with a healthy cache
  file and an expiry time of the new entry inside the range of \<open>datetime\<close> it returns
  a value and never an exception, after at most \<open>max_retries - retries + 1\<close>
  requests; with a healthy cache file the only exception that can leave it is the
  \<open>OverflowError\<close> of an expiry time outside that range; when nothing is cached and
  every request fails, it makes exactly \<open>max_retries - retries + 1\<close> requests,
  sleeps \<open>2 ** r\<close> seconds after the failure with retry count \<open>r\<close> for each
  \<open>r\<close> below \<open>max_retries\<close>, and returns \<open>None\<close>.
  \<open>APICollector._make_api_request\<close> makes at most one request per call, and when
  that request fails it returns \<open>None\<close> without a retry.
\<close>

theorem retry_behaviour:
  "(web_read_fault sc = None \<and> web_write_fault sc = None \<and> expires_after now h = Inr e \<longrightarrow>
      (\<exists>res sc' w'. make_request md5 sc w u retries h now = Inr (res, sc', w')
          \<and> requests_made w' \<le> requests_made w + (max_retries sc - retries) + 1))
 \<and> (web_read_fault sc = None \<and> web_write_fault sc = None
      \<and> make_request md5 sc w u retries h now = Inl x \<longrightarrow>
      x = OverflowError \<and> expires_after now h = Inl OverflowError)
 \<and> (web_read_fault sc = None \<and> map_of (web_table sc) (md5 u) = None
      \<and> (\<forall>i. \<exists>m. remote w i = HttpError m) \<and> retries \<le> max_retries sc \<longrightarrow>
      make_request md5 sc w u retries h now
        = Inr (None, sc,
               w\<lparr>requests_made := requests_made w + (max_retries sc - retries) + 1,
                 slept := slept w @ map (\<lambda>r. 2 ^ r) [retries..<max_retries sc]\<rparr>))
 \<and> (case make_api_request md5 enc c wj an ep ps h now of
       Inr (res, c', w') \<Rightarrow> requests_made w' \<le> Suc (requests_made wj)
     | Inl e \<Rightarrow> True)
 \<and> (read_fault (cache c) = None
      \<and> map_of (table (cache c)) (generate_cache_key md5 enc an ep ps) = None
      \<and> rate_limit_check c an now = Inr c1 \<and> api_keys c1 an = Some k \<and> k \<noteq> []
      \<and> remote wj (requests_made wj) = HttpError m \<longrightarrow>
      make_api_request md5 enc c wj an ep ps h now
        = Inr (None, c1, wj\<lparr>requests_made := Suc (requests_made wj)\<rparr>))"
proof -
  have a: "web_read_fault sc = None \<and> web_write_fault sc = None \<and> expires_after now h = Inr e \<longrightarrow>
      (\<exists>res sc' w'. make_request md5 sc w u retries h now = Inr (res, sc', w')
          \<and> requests_made w' \<le> requests_made w + (max_retries sc - retries) + 1)"
    using make_request_bounded by blast
  have a': "web_read_fault sc = None \<and> web_write_fault sc = None
      \<and> make_request md5 sc w u retries h now = Inl x \<longrightarrow>
      x = OverflowError \<and> expires_after now h = Inl OverflowError"
    using make_request_raises [of sc md5 w u retries h now x] expires_after_overflow [of now h x]
    by blast
  have b: "web_read_fault sc = None \<and> map_of (web_table sc) (md5 u) = None
      \<and> (\<forall>i. \<exists>m. remote w i = HttpError m) \<and> retries \<le> max_retries sc \<longrightarrow>
      make_request md5 sc w u retries h now
        = Inr (None, sc,
               w\<lparr>requests_made := requests_made w + (max_retries sc - retries) + 1,
                 slept := slept w @ map (\<lambda>r. 2 ^ r) [retries..<max_retries sc]\<rparr>)"
    by (simp add: make_request_exhausted)
  have c: "case make_api_request md5 enc c wj an ep ps h now of
       Inr (res, c', w') \<Rightarrow> requests_made w' \<le> Suc (requests_made wj)
     | Inl e \<Rightarrow> True"
    by (rule make_api_request_single_attempt)
  have d: "read_fault (cache c) = None
      \<and> map_of (table (cache c)) (generate_cache_key md5 enc an ep ps) = None
      \<and> rate_limit_check c an now = Inr c1 \<and> api_keys c1 an = Some k \<and> k \<noteq> []
      \<and> remote wj (requests_made wj) = HttpError m \<longrightarrow>
      make_api_request md5 enc c wj an ep ps h now
        = Inr (None, c1, wj\<lparr>requests_made := Suc (requests_made wj)\<rparr>)"
    using make_api_request_failed_attempt by blast
  from a a' b c d show ?thesis by blast
qed

theorem retry_behaviour_witness:
  "make_request (\<lambda>s. s) new_scraper always_down ''https://vietnam.travel/'' 0 12 0
     = Inr (None, new_scraper, always_down\<lparr>requests_made := 4, slept := [1, 2, 4]\<rparr>)
 \<and> (\<exists>res sc' w'. make_request (\<lambda>s. s) new_scraper always_down ''https://vietnam.travel/'' 0 6 5
                     = Inr (res, sc', w')
        \<and> requests_made w' \<le> 4)
 \<and> make_api_request (\<lambda>s. s) quoted weather_collector fails_once ''openweather'' ''weather''
       [(''q'', JStr ''Hue'')] 6 5
     = Inr (None,
            weather_collector\<lparr>request_counts := [''openweather'' \<mapsto> 1],
                              last_request_time := [''openweather'' \<mapsto> 5]\<rparr>,
            fails_once\<lparr>requests_made := 1\<rparr>)"
proof -
  note inst = retry_behaviour
    [where sc = new_scraper and ?md5.0 = "\<lambda>s. s" and w = always_down
       and u = "''https://vietnam.travel/''" and retries = 0 and h = 6 and now = 5
       and e = 21600000005
       and enc = quoted and c = weather_collector and wj = fails_once
       and an = "''openweather''" and ep = "''weather''" and ps = "[(''q'', JStr ''Hue'')]"
       and ?c1.0 = "weather_collector\<lparr>request_counts := [''openweather'' \<mapsto> 1],
                              last_request_time := [''openweather'' \<mapsto> 5]\<rparr>"
       and k = "''k''" and m = "''timeout''"]
  have 0: "web_read_fault new_scraper = None \<and> web_write_fault new_scraper = None
      \<and> expires_after 5 6 = Inr 21600000005"
    by (simp add: new_scraper_def expiry_in_range)
  have 1: "web_read_fault new_scraper = None \<and> map_of (web_table new_scraper) ''https://vietnam.travel/'' = None
      \<and> (\<forall>i. \<exists>m. remote always_down i = HttpError m) \<and> (0::nat) \<le> max_retries new_scraper"
    by (simp add: new_scraper_def always_down_def)
  have 2: "read_fault (cache weather_collector) = None
      \<and> map_of (table (cache weather_collector))
           (generate_cache_key (\<lambda>s. s) quoted ''openweather'' ''weather'' [(''q'', JStr ''Hue'')]) = None
      \<and> rate_limit_check weather_collector ''openweather'' 5
           = Inr (weather_collector\<lparr>request_counts := [''openweather'' \<mapsto> 1],
                              last_request_time := [''openweather'' \<mapsto> 5]\<rparr>)
      \<and> api_keys (weather_collector\<lparr>request_counts := [''openweather'' \<mapsto> 1],
                              last_request_time := [''openweather'' \<mapsto> 5]\<rparr>) ''openweather'' = Some ''k''
      \<and> ''k'' \<noteq> [] \<and> remote fails_once (requests_made fails_once) = HttpError ''timeout''"
    by (simp add: weather_rate_limit) (simp add: weather_collector_def fails_once_def)
  have 3: "make_request (\<lambda>s. s) new_scraper always_down ''https://vietnam.travel/'' 0 6 5
      = make_request (\<lambda>s. s) new_scraper always_down ''https://vietnam.travel/'' 0 12 0"
    using make_request_exhausted [of new_scraper "\<lambda>s. s" "''https://vietnam.travel/''" always_down 0]
      1 by simp
  from inst 0 have 4:
    "\<exists>res sc' w'. make_request (\<lambda>s. s) new_scraper always_down ''https://vietnam.travel/'' 0 6 5
                     = Inr (res, sc', w')
        \<and> requests_made w' \<le> requests_made always_down + (max_retries new_scraper - 0) + 1"
    by blast
  have 5: "requests_made always_down + (max_retries new_scraper - 0) + 1 = 4"
    by (simp add: new_scraper_def always_down_def)
  from inst 1 2 3 have 6:
    "make_request (\<lambda>s. s) new_scraper always_down ''https://vietnam.travel/'' 0 12 0
       = Inr (None, new_scraper, always_down\<lparr>requests_made := 4, slept := [1, 2, 4]\<rparr>)
   \<and> make_api_request (\<lambda>s. s) quoted weather_collector fails_once ''openweather'' ''weather''
       [(''q'', JStr ''Hue'')] 6 5
     = Inr (None,
            weather_collector\<lparr>request_counts := [''openweather'' \<mapsto> 1],
                              last_request_time := [''openweather'' \<mapsto> 5]\<rparr>,
            fails_once\<lparr>requests_made := 1\<rparr>)"
    by (simp add: new_scraper_def always_down_def fails_once_def upt_conv_Cons)
  from 4 5 6 show ?thesis by simp
qed

text \<open>
  Claim C5 fails for \<open>APICollector._make_api_request\<close>: the first request fails, a
  second one would be answered, but the call makes one request, does not sleep and
  returns \<open>None\<close>.
\<close>

theorem api_request_not_retried:
  "remote fails_once 0 = HttpError ''timeout''
 \<and> remote fails_once 1 = HttpOk (JDict [(''temp'', JInt 25)])
 \<and> (case make_api_request (\<lambda>s. s) quoted weather_collector fails_once ''openweather''
            ''weather'' [(''q'', JStr ''Hue'')] 6 5 of
       Inr (res, c', w') \<Rightarrow> res = None \<and> requests_made w' = 1 \<and> slept w' = []
     | Inl e \<Rightarrow> False)"
proof -
  have "make_api_request (\<lambda>s. s) quoted weather_collector fails_once ''openweather''
            ''weather'' [(''q'', JStr ''Hue'')] 6 5
      = Inr (None, weather_collector\<lparr>request_counts := [''openweather'' \<mapsto> 1],
                              last_request_time := [''openweather'' \<mapsto> 5]\<rparr>,
             fails_once\<lparr>requests_made := Suc (requests_made fails_once)\<rparr>)"
    by (rule make_api_request_failed_attempt [where k = "''k''" and m = "''timeout''"])
       (simp_all add: weather_rate_limit, simp_all add: weather_collector_def fails_once_def)
  then show ?thesis
    by (simp add: fails_once_def)
qed

text \<open>
  Claim C6, as the code has it.  An error of \<open>sqlite3\<close> in the cache read leaves
  \<open>_get_cached_response\<close>, and with it \<open>_make_api_request\<close> and
  \<open>WebScraper._make_request\<close>, as an exception: the read is not turned into a miss.
  With a cache file that cannot be written, the cache write after a successful request
  leaves \<open>_cache_response\<close> and both adapters as an exception too, and the response
  that was fetched is not returned: the exception is the error of \<open>sqlite3\<close> when
  the expiry time of the entry is inside the range of \<open>datetime\<close>, and otherwise the
  \<open>OverflowError\<close> of the expiry time, which is computed before the write.
\<close>

theorem cache_fault_propagates:
  "(read_fault f = Some m \<longrightarrow> get_cached_response_io f key now = Inl (SqliteError m))
 \<and> (write_fault f = Some m \<and> expires_after now h = Inr e \<longrightarrow>
      cache_response_io f key an ep resp h now = Inl (SqliteError m))
 \<and> (write_fault f = Some m \<and> expires_after now h = Inl x \<longrightarrow>
      cache_response_io f key an ep resp h now = Inl OverflowError)
 \<and> (read_fault (cache c) = Some m \<longrightarrow>
      make_api_request md5 enc c w an ep ps h now = Inl (SqliteError m))
 \<and> (read_fault (cache c) = None
      \<and> map_of (table (cache c)) (generate_cache_key md5 enc an ep ps) = None
      \<and> rate_limit_check c an now = Inr c1 \<and> api_keys c1 an = Some k \<and> k \<noteq> []
      \<and> remote w (requests_made w) = HttpOk resp \<and> write_fault (cache c) = Some m
      \<and> expires_after now h = Inr e \<longrightarrow>
      make_api_request md5 enc c w an ep ps h now = Inl (SqliteError m))
 \<and> (read_fault (cache c) = None
      \<and> map_of (table (cache c)) (generate_cache_key md5 enc an ep ps) = None
      \<and> rate_limit_check c an now = Inr c1 \<and> api_keys c1 an = Some k \<and> k \<noteq> []
      \<and> remote w (requests_made w) = HttpOk resp \<and> write_fault (cache c) = Some m
      \<and> expires_after now h = Inl x \<longrightarrow>
      make_api_request md5 enc c w an ep ps h now = Inl OverflowError)
 \<and> (web_read_fault sc = Some m \<longrightarrow>
      make_request md5 sc ws u retries h now = Inl (SqliteError m))
 \<and> (web_read_fault sc = None \<and> map_of (web_table sc) (md5 u) = None
      \<and> remote ws (requests_made ws) = HttpOk page \<and> web_write_fault sc = Some m
      \<and> expires_after now h = Inr e \<longrightarrow>
      make_request md5 sc ws u retries h now = Inl (SqliteError m))
 \<and> (web_read_fault sc = None \<and> map_of (web_table sc) (md5 u) = None
      \<and> remote ws (requests_made ws) = HttpOk page \<and> web_write_fault sc = Some m
      \<and> expires_after now h = Inl x \<longrightarrow>
      make_request md5 sc ws u retries h now = Inl OverflowError)"
proof -
  have o: "expires_after now h = Inl x \<longrightarrow> expires_after now h = Inl OverflowError"
    using expires_after_overflow [of now h x] by blast
  have r: "read_fault f = Some m \<longrightarrow> get_cached_response_io f key now = Inl (SqliteError m)"
    by (simp add: get_cached_response_io_def)
  have w1: "write_fault f = Some m \<and> expires_after now h = Inr e \<longrightarrow>
      cache_response_io f key an ep resp h now = Inl (SqliteError m)"
    by (simp add: cache_response_io_write_fault)
  have w2: "write_fault f = Some m \<and> expires_after now h = Inl x \<longrightarrow>
      cache_response_io f key an ep resp h now = Inl OverflowError"
    using o by (auto simp add: cache_response_io_write_fault)
  have a: "read_fault (cache c) = Some m \<longrightarrow>
      make_api_request md5 enc c w an ep ps h now = Inl (SqliteError m)"
    by (simp add: make_api_request_read_fault)
  have b1: "read_fault (cache c) = None
      \<and> map_of (table (cache c)) (generate_cache_key md5 enc an ep ps) = None
      \<and> rate_limit_check c an now = Inr c1 \<and> api_keys c1 an = Some k \<and> k \<noteq> []
      \<and> remote w (requests_made w) = HttpOk resp \<and> write_fault (cache c) = Some m
      \<and> expires_after now h = Inr e \<longrightarrow>
      make_api_request md5 enc c w an ep ps h now = Inl (SqliteError m)"
    using make_api_request_write_fault [of c md5 enc an ep ps now c1 k w resp m h] by auto
  have b2: "read_fault (cache c) = None
      \<and> map_of (table (cache c)) (generate_cache_key md5 enc an ep ps) = None
      \<and> rate_limit_check c an now = Inr c1 \<and> api_keys c1 an = Some k \<and> k \<noteq> []
      \<and> remote w (requests_made w) = HttpOk resp \<and> write_fault (cache c) = Some m
      \<and> expires_after now h = Inl x \<longrightarrow>
      make_api_request md5 enc c w an ep ps h now = Inl OverflowError"
    using make_api_request_write_fault [of c md5 enc an ep ps now c1 k w resp m h] o by auto
  have c: "web_read_fault sc = Some m \<longrightarrow>
      make_request md5 sc ws u retries h now = Inl (SqliteError m)"
    by (simp add: make_request_read_fault)
  have d1: "web_read_fault sc = None \<and> map_of (web_table sc) (md5 u) = None
      \<and> remote ws (requests_made ws) = HttpOk page \<and> web_write_fault sc = Some m
      \<and> expires_after now h = Inr e \<longrightarrow>
      make_request md5 sc ws u retries h now = Inl (SqliteError m)"
    using make_request_write_fault [of sc md5 u ws page m retries h now] by auto
  have d2: "web_read_fault sc = None \<and> map_of (web_table sc) (md5 u) = None
      \<and> remote ws (requests_made ws) = HttpOk page \<and> web_write_fault sc = Some m
      \<and> expires_after now h = Inl x \<longrightarrow>
      make_request md5 sc ws u retries h now = Inl OverflowError"
    using make_request_write_fault [of sc md5 u ws page m retries h now] o by auto
  from r w1 w2 a b1 b2 c d1 d2 show ?thesis by blast
qed

theorem cache_fault_propagates_witness:
  "read_fault (cache unreadable_collector) = Some ''disk I/O error''
 \<and> get_cached_response_io (cache unreadable_collector) ''key'' 5 = Inl (SqliteError ''disk I/O error'')
 \<and> make_api_request (\<lambda>s. s) quoted unreadable_collector answers ''openweather'' ''weather''
       [(''q'', JStr ''Hue'')] 6 5 = Inl (SqliteError ''disk I/O error'')
 \<and> write_fault (cache unwritable_collector) = Some ''database is locked''
 \<and> expires_after 5 6 = Inr 21600000005
 \<and> cache_response_io (cache unwritable_collector) ''key'' ''openweather'' ''weather''
       (JDict [(''temp'', JInt 25)]) 6 5 = Inl (SqliteError ''database is locked'')
 \<and> remote answers (requests_made answers) = HttpOk (JDict [(''temp'', JInt 25)])
 \<and> make_api_request (\<lambda>s. s) quoted unwritable_collector answers ''openweather'' ''weather''
       [(''q'', JStr ''Hue'')] 6 5 = Inl (SqliteError ''database is locked'')
 \<and> web_read_fault unreadable_scraper = Some ''disk I/O error''
 \<and> make_request (\<lambda>s. s) unreadable_scraper page_answers ''https://vietnam.travel/'' 0 6 5
     = Inl (SqliteError ''disk I/O error'')
 \<and> web_write_fault unwritable_scraper = Some ''database is locked''
 \<and> remote page_answers (requests_made page_answers) = HttpOk ''<html></html>''
 \<and> make_request (\<lambda>s. s) unwritable_scraper page_answers ''https://vietnam.travel/'' 0 6 5
     = Inl (SqliteError ''database is locked'')"
proof -
  have r: "read_fault (cache unreadable_collector) = Some ''disk I/O error''"
    by (simp add: unreadable_collector_def)
  have w: "read_fault (cache unwritable_collector) = None
      \<and> map_of (table (cache unwritable_collector))
           (generate_cache_key (\<lambda>s. s) quoted ''openweather'' ''weather'' [(''q'', JStr ''Hue'')]) = None
      \<and> api_keys (unwritable_collector\<lparr>request_counts := [''openweather'' \<mapsto> 1],
                                 last_request_time := [''openweather'' \<mapsto> 5]\<rparr>) ''openweather'' = Some ''k''
      \<and> ''k'' \<noteq> []
      \<and> remote answers (requests_made answers) = HttpOk (JDict [(''temp'', JInt 25)])
      \<and> write_fault (cache unwritable_collector) = Some ''database is locked''"
    by (simp add: unwritable_collector_def weather_collector_def answers_def)
  have sr: "web_read_fault unreadable_scraper = Some ''disk I/O error''"
    by (simp add: unreadable_scraper_def)
  have sw: "web_read_fault unwritable_scraper = None
      \<and> map_of (web_table unwritable_scraper) ''https://vietnam.travel/'' = None
      \<and> remote page_answers (requests_made page_answers) = HttpOk ''<html></html>''
      \<and> web_write_fault unwritable_scraper = Some ''database is locked''"
    by (simp add: unwritable_scraper_def new_scraper_def page_answers_def)
  from cache_fault_propagates
      [where f = "cache unreadable_collector" and m = "''disk I/O error''" and key = "''key''"
         and now = 5 and c = unreadable_collector and ?md5.0 = "\<lambda>s. s" and enc = quoted
         and w = answers and an = "''openweather''" and ep = "''weather''"
         and ps = "[(''q'', JStr ''Hue'')]" and h = 6
         and sc = unreadable_scraper and ws = page_answers and u = "''https://vietnam.travel/''"
         and retries = 0] r sr
  have 1: "get_cached_response_io (cache unreadable_collector) ''key'' 5
        = Inl (SqliteError ''disk I/O error'')
      \<and> make_api_request (\<lambda>s. s) quoted unreadable_collector answers ''openweather'' ''weather''
          [(''q'', JStr ''Hue'')] 6 5 = Inl (SqliteError ''disk I/O error'')
      \<and> make_request (\<lambda>s. s) unreadable_scraper page_answers ''https://vietnam.travel/'' 0 6 5
          = Inl (SqliteError ''disk I/O error'')"
    by blast
  from cache_fault_propagates
      [where f = "cache unwritable_collector" and key = "''key''"
         and m = "''database is locked''" and now = 5 and c = unwritable_collector
         and ?md5.0 = "\<lambda>s. s" and enc = quoted and w = answers and an = "''openweather''"
         and ep = "''weather''" and ps = "[(''q'', JStr ''Hue'')]" and h = 6
         and e = 21600000005
         and ?c1.0 = "unwritable_collector\<lparr>request_counts := [''openweather'' \<mapsto> 1],
                                 last_request_time := [''openweather'' \<mapsto> 5]\<rparr>"
         and k = "''k''" and resp = "JDict [(''temp'', JInt 25)]"
         and sc = unwritable_scraper and ws = page_answers and u = "''https://vietnam.travel/''"
         and page = "''<html></html>''" and retries = 0]
    w sw unwritable_rate_limit expiry_in_range
  have 2: "cache_response_io (cache unwritable_collector) ''key'' ''openweather'' ''weather''
          (JDict [(''temp'', JInt 25)]) 6 5 = Inl (SqliteError ''database is locked'')
      \<and> make_api_request (\<lambda>s. s) quoted unwritable_collector answers ''openweather'' ''weather''
          [(''q'', JStr ''Hue'')] 6 5 = Inl (SqliteError ''database is locked'')
      \<and> make_request (\<lambda>s. s) unwritable_scraper page_answers ''https://vietnam.travel/'' 0 6 5
          = Inl (SqliteError ''database is locked'')"
    by blast
  from 1 2 r w sr sw expiry_in_range show ?thesis by blast
qed

text \<open>
  Claim C6 fails.  With a cache file that cannot be read the lookup raises instead of
  returning \<open>None\<close>, and so does the request; with a cache file that cannot be
  written, the request that the remote service answers raises instead of returning
  the answer.
\<close>

theorem cache_fault_is_not_a_miss:
  "get_cached_response_io (cache unreadable_collector) ''key'' 5 \<noteq> Inr None
 \<and> get_cached_response_io (cache unreadable_collector) ''key'' 5
     = Inl (SqliteError ''disk I/O error'')
 \<and> make_api_request (\<lambda>s. s) quoted unreadable_collector answers ''openweather'' ''weather''
       [(''q'', JStr ''Hue'')] 6 5 = Inl (SqliteError ''disk I/O error'')
 \<and> remote answers (requests_made answers) = HttpOk (JDict [(''temp'', JInt 25)])
 \<and> make_api_request (\<lambda>s. s) quoted unwritable_collector answers ''openweather'' ''weather''
       [(''q'', JStr ''Hue'')] 6 5 = Inl (SqliteError ''database is locked'')"
proof -
  have 1: "get_cached_response_io (cache unreadable_collector) ''key'' 5
      = Inl (SqliteError ''disk I/O error'')"
    by (simp add: get_cached_response_io_def unreadable_collector_def)
  have 2: "make_api_request (\<lambda>s. s) quoted unreadable_collector answers ''openweather'' ''weather''
       [(''q'', JStr ''Hue'')] 6 5 = Inl (SqliteError ''disk I/O error'')"
    by (rule make_api_request_read_fault) (simp add: unreadable_collector_def)
  have 3: "remote answers (requests_made answers) = HttpOk (JDict [(''temp'', JInt 25)])"
    by (simp add: answers_def)
  have "make_api_request (\<lambda>s. s) quoted unwritable_collector answers ''openweather'' ''weather''
       [(''q'', JStr ''Hue'')] 6 5
      = Inl (case expires_after 5 6 of Inl x \<Rightarrow> x | Inr e \<Rightarrow> SqliteError ''database is locked'')"
    by (rule make_api_request_write_fault [OF _ _ unwritable_rate_limit, where k = "''k''"])
       (simp_all add: unwritable_collector_def weather_collector_def answers_def)
  then have 4: "make_api_request (\<lambda>s. s) quoted unwritable_collector answers ''openweather'' ''weather''
       [(''q'', JStr ''Hue'')] 6 5 = Inl (SqliteError ''database is locked'')"
    by (simp add: expiry_in_range)
  from 1 2 3 4 show ?thesis by simp
qed

section \<open>Properties of the run controller\<close>

lemma first_error_none: "first_error es = None \<longleftrightarrow> list_all (\<lambda>e. e = None) es"
  by (induction es rule: first_error.induct) simp_all

lemma validate_budget_valid:
  "validate_budget big se b tc n t = Inr (True, bd) \<longleftrightarrow>
     tc + 450000 * n * t \<le> b \<and> n \<noteq> 0 \<and> \<not> big (b - tc) n
     \<and> bd = \<lparr>transport = tc, remaining = b - tc, shortage = None\<rparr>"
  by (auto simp add: validate_budget_def truediv_error_def Let_def split: option.splits)

lemma validate_budget_invalid:
  "validate_budget big se b tc n t = Inr (False, bd) \<longleftrightarrow>
     b < tc + 450000 * n * t
     \<and> (0 < b - tc \<longrightarrow> n \<noteq> 0 \<and> \<not> big (b - tc) n)
     \<and> format_error se [tc + 450000 * n * t - b, tc, 450000 * n * t, tc + 450000 * n * t] = None
     \<and> bd = \<lparr>transport = tc, remaining = b - tc, shortage = Some (tc + 450000 * n * t - b)\<rparr>"
  by (cases "first_error
               [if b - tc > 0 then truediv_error big (b - tc) n else None,
                format_error se [tc + 450000 * n * t - b, tc, 450000 * n * t,
                                 tc + 450000 * n * t]]")
     (auto simp add: validate_budget_def truediv_error_def Let_def first_error_none
        split: if_splits)

lemma validate_budget_raises:
  "validate_budget big se b tc n t = Inl e \<Longrightarrow> tc + 450000 * n * t \<le> b \<Longrightarrow>
   n = 0 \<and> e = ''division by zero''
   \<or> n \<noteq> 0 \<and> big (b - tc) n \<and> e = ''integer division result too large for a float''"
  by (auto simp add: validate_budget_def truediv_error_def Let_def split: option.splits if_splits)

lemma validate_budget_no_days:
  "tc + 450000 * 0 * t \<le> b \<Longrightarrow> validate_budget big se b tc 0 t = Inl ''division by zero''"
  by (simp add: validate_budget_def truediv_error_def Let_def)

lemma same_city_cost:
  "calculate_transport_cost strip lower aliases distances route c c t
     = Inr \<lparr>distance = 0, min_cost = 7000 * t * 4,
            option_costs = [7000 * t * 4, 30000 * t * 3, 50000 * t * 3]\<rparr>"
  by (simp add: calculate_transport_cost_def get_distance_def Let_def)

lemma controller_blank:
  "blank (str_strip py) den \<Longrightarrow>
   tao_ke_hoach_du_lich py aliases distances route rag di den ns sn sng st = MissingDestination"
  by (simp add: tao_ke_hoach_du_lich_def)

lemma controller_no_route:
  "\<not> blank (str_strip py) den \<Longrightarrow>
   calculate_transport_cost (str_strip py) (str_lower py) aliases distances route
     (if blank (str_strip py) di then den else di) den
     (travelers_of (str_strip py) (int_of_str py) sng) = Inl e \<Longrightarrow>
   tao_ke_hoach_du_lich py aliases distances route rag di den ns sn sng st = ErrorPage e"
  by (simp add: tao_ke_hoach_du_lich_def Let_def)

lemma controller_route:
  "\<not> blank (str_strip py) den \<Longrightarrow>
   calculate_transport_cost (str_strip py) (str_lower py) aliases distances route
     (if blank (str_strip py) di then den else di) den
     (travelers_of (str_strip py) (int_of_str py) sng) = Inr info \<Longrightarrow>
   tao_ke_hoach_du_lich py aliases distances route rag di den ns sn sng st =
     (case validate_budget (float_too_large py) (int_str_error py)
             (budget_of (str_strip py) (int_of_str py) ns) (min_cost info)
             (days_of (str_strip py) (int_of_str py) sn)
             (travelers_of (str_strip py) (int_of_str py) sng) of
        Inl e \<Rightarrow> ErrorPage e
      | Inr (is_valid, breakdown) \<Rightarrow>
          if \<not> is_valid
          then (case format_error (int_str_error py)
                       ([days_of (str_strip py) (int_of_str py) sn,
                         travelers_of (str_strip py) (int_of_str py) sng,
                         budget_of (str_strip py) (int_of_str py) ns,
                         distance info, min_cost info] @ option_costs info) of
                  Some e \<Rightarrow> ErrorPage e
                | None \<Rightarrow>
                    InsufficientBudget (case shortage breakdown of Some n \<Rightarrow> n | None \<Rightarrow> 0))
          else (case format_error (int_str_error py)
                       [budget_of (str_strip py) (int_of_str py) ns,
                        days_of (str_strip py) (int_of_str py) sn,
                        travelers_of (str_strip py) (int_of_str py) sng,
                        distance info, min_cost info,
                        transport breakdown, remaining breakdown] of
                  Some e \<Rightarrow> ErrorPage e
                | None \<Rightarrow>
                    (case rag of
                       Some e \<Rightarrow> ErrorPage e
                     | None \<Rightarrow>
                         WorkflowInvoked den (budget_of (str_strip py) (int_of_str py) ns)
                           (days_of (str_strip py) (int_of_str py) sn)
                           (travelers_of (str_strip py) (int_of_str py) sng) st)))"
  by (simp add: tao_ke_hoach_du_lich_def Let_def)

lemma controller_invoked:
  assumes inv: "tao_ke_hoach_du_lich py aliases distances route rag di den ns sn sng st
                  = WorkflowInvoked d b n t i"
  shows "\<not> blank (str_strip py) den \<and> d = den
       \<and> b = budget_of (str_strip py) (int_of_str py) ns
       \<and> n = days_of (str_strip py) (int_of_str py) sn
       \<and> t = travelers_of (str_strip py) (int_of_str py) sng
       \<and> i = st \<and> n \<noteq> 0 \<and> rag = None
       \<and> (\<exists>info. calculate_transport_cost (str_strip py) (str_lower py) aliases distances route
                     (if blank (str_strip py) di then den else di) den t = Inr info
                  \<and> min_cost info + 450000 * n * t \<le> b
                  \<and> \<not> float_too_large py (b - min_cost info) n)"
proof -
  let ?B = "budget_of (str_strip py) (int_of_str py) ns"
  let ?N = "days_of (str_strip py) (int_of_str py) sn"
  let ?T = "travelers_of (str_strip py) (int_of_str py) sng"
  let ?calc = "calculate_transport_cost (str_strip py) (str_lower py) aliases distances route
                 (if blank (str_strip py) di then den else di) den ?T"
  from inv have nb: "\<not> blank (str_strip py) den"
    using controller_blank [of py den aliases distances route rag di ns sn sng st] by auto
  from inv nb obtain info where calc: "?calc = Inr info"
    using controller_no_route [OF nb, of aliases distances route di sng _ rag ns sn st]
    by (cases ?calc) auto
  note out = controller_route [OF nb calc, of rag ns sn st]
  from inv out obtain ok bd where
    vb: "validate_budget (float_too_large py) (int_str_error py) ?B (min_cost info) ?N ?T
           = Inr (ok, bd)"
    by (cases "validate_budget (float_too_large py) (int_str_error py) ?B (min_cost info) ?N ?T")
       auto
  from inv out vb have ok: ok
    by (cases ok) (auto split: option.splits)
  from vb ok have suff: "min_cost info + 450000 * ?N * ?T \<le> ?B" and nz: "?N \<noteq> 0"
    and fl: "\<not> float_too_large py (?B - min_cost info) ?N"
    by (simp_all add: validate_budget_valid)
  from inv out vb ok have rg: "rag = None"
    by (cases rag) (auto split: option.splits)
  from inv out vb ok rg have "d = den \<and> b = ?B \<and> n = ?N \<and> t = ?T \<and> i = st"
    by (auto split: option.splits)
  with nb calc suff nz fl rg show ?thesis by auto
qed

lemma controller_invokes:
  assumes "\<not> blank (str_strip py) den"
    and "calculate_transport_cost (str_strip py) (str_lower py) aliases distances route
           (if blank (str_strip py) di then den else di) den
           (travelers_of (str_strip py) (int_of_str py) sng) = Inr info"
    and "min_cost info + 450000 * days_of (str_strip py) (int_of_str py) sn
           * travelers_of (str_strip py) (int_of_str py) sng
         \<le> budget_of (str_strip py) (int_of_str py) ns"
    and "days_of (str_strip py) (int_of_str py) sn \<noteq> 0"
    and "\<not> float_too_large py (budget_of (str_strip py) (int_of_str py) ns - min_cost info)
             (days_of (str_strip py) (int_of_str py) sn)"
    and "format_error (int_str_error py)
           [budget_of (str_strip py) (int_of_str py) ns,
            days_of (str_strip py) (int_of_str py) sn,
            travelers_of (str_strip py) (int_of_str py) sng,
            distance info, min_cost info, min_cost info,
            budget_of (str_strip py) (int_of_str py) ns - min_cost info] = None"
    and "rag = None"
  shows "tao_ke_hoach_du_lich py aliases distances route rag di den ns sn sng st
           = WorkflowInvoked den (budget_of (str_strip py) (int_of_str py) ns)
               (days_of (str_strip py) (int_of_str py) sn)
               (travelers_of (str_strip py) (int_of_str py) sng) st"
proof -
  let ?B = "budget_of (str_strip py) (int_of_str py) ns"
  let ?N = "days_of (str_strip py) (int_of_str py) sn"
  let ?T = "travelers_of (str_strip py) (int_of_str py) sng"
  have vb: "validate_budget (float_too_large py) (int_str_error py) ?B (min_cost info) ?N ?T
      = Inr (True, \<lparr>transport = min_cost info, remaining = ?B - min_cost info, shortage = None\<rparr>)"
    using assms(3,4,5) by (simp add: validate_budget_valid)
  show ?thesis
    using assms(6,7) by (simp add: controller_route [OF assms(1,2)] vb)
qed

lemma controller_insufficient:
  assumes "\<not> blank (str_strip py) den"
    and "calculate_transport_cost (str_strip py) (str_lower py) aliases distances route
           (if blank (str_strip py) di then den else di) den
           (travelers_of (str_strip py) (int_of_str py) sng) = Inr info"
    and "budget_of (str_strip py) (int_of_str py) ns
         < min_cost info + 450000 * days_of (str_strip py) (int_of_str py) sn
             * travelers_of (str_strip py) (int_of_str py) sng"
  shows "(\<exists>e. tao_ke_hoach_du_lich py aliases distances route rag di den ns sn sng st = ErrorPage e)
       \<or> tao_ke_hoach_du_lich py aliases distances route rag di den ns sn sng st
           = InsufficientBudget
               (min_cost info + 450000 * days_of (str_strip py) (int_of_str py) sn
                  * travelers_of (str_strip py) (int_of_str py) sng
                - budget_of (str_strip py) (int_of_str py) ns)"
proof -
  let ?B = "budget_of (str_strip py) (int_of_str py) ns"
  let ?N = "days_of (str_strip py) (int_of_str py) sn"
  let ?T = "travelers_of (str_strip py) (int_of_str py) sng"
  let ?vb = "validate_budget (float_too_large py) (int_str_error py) ?B (min_cost info) ?N ?T"
  note out = controller_route [OF assms(1,2), of rag ns sn st]
  show ?thesis
  proof (cases ?vb)
    case (Inl e)
    with out show ?thesis by simp
  next
    case (Inr r)
    obtain ok bd where r: "r = (ok, bd)" by (cases r)
    from Inr r assms(3) have nok: "\<not> ok"
      by (cases ok) (simp_all add: validate_budget_valid)
    with Inr r have "shortage bd = Some (min_cost info + 450000 * ?N * ?T - ?B)"
      by (simp add: validate_budget_invalid)
    with out Inr r nok show ?thesis
      by (cases "format_error (int_str_error py)
                   ([?N, ?T, ?B, distance info, min_cost info] @ option_costs info)")
         simp_all
  qed
qed

lemma controller_insufficient_page:
  assumes "\<not> blank (str_strip py) den"
    and "calculate_transport_cost (str_strip py) (str_lower py) aliases distances route
           (if blank (str_strip py) di then den else di) den
           (travelers_of (str_strip py) (int_of_str py) sng) = Inr info"
    and "budget_of (str_strip py) (int_of_str py) ns
         < min_cost info + 450000 * days_of (str_strip py) (int_of_str py) sn
             * travelers_of (str_strip py) (int_of_str py) sng"
    and "budget_of (str_strip py) (int_of_str py) ns \<le> min_cost info
         \<or> days_of (str_strip py) (int_of_str py) sn \<noteq> 0
           \<and> \<not> float_too_large py (budget_of (str_strip py) (int_of_str py) ns - min_cost info)
                 (days_of (str_strip py) (int_of_str py) sn)"
    and "\<forall>k. int_str_error py k = None"
  shows "tao_ke_hoach_du_lich py aliases distances route rag di den ns sn sng st
           = InsufficientBudget
               (min_cost info + 450000 * days_of (str_strip py) (int_of_str py) sn
                  * travelers_of (str_strip py) (int_of_str py) sng
                - budget_of (str_strip py) (int_of_str py) ns)"
proof -
  let ?B = "budget_of (str_strip py) (int_of_str py) ns"
  let ?N = "days_of (str_strip py) (int_of_str py) sn"
  let ?T = "travelers_of (str_strip py) (int_of_str py) sng"
  have fe: "format_error (int_str_error py) ks = None" for ks
    using assms(5) by (induction ks) (simp_all add: format_error_def)
  have vb: "validate_budget (float_too_large py) (int_str_error py) ?B (min_cost info) ?N ?T
      = Inr (False, \<lparr>transport = min_cost info, remaining = ?B - min_cost info,
                     shortage = Some (min_cost info + 450000 * ?N * ?T - ?B)\<rparr>)"
    using assms(3,4) by (auto simp add: validate_budget_invalid fe)
  show ?thesis
    by (simp add: controller_route [OF assms(1,2)] vb fe)
qed

lemma controller_no_days:
  assumes "\<not> blank (str_strip py) den"
    and "calculate_transport_cost (str_strip py) (str_lower py) aliases distances route
           (if blank (str_strip py) di then den else di) den
           (travelers_of (str_strip py) (int_of_str py) sng) = Inr info"
    and "min_cost info \<le> budget_of (str_strip py) (int_of_str py) ns"
    and "days_of (str_strip py) (int_of_str py) sn = 0"
  shows "tao_ke_hoach_du_lich py aliases distances route rag di den ns sn sng st
           = ErrorPage ''division by zero''"
  using assms(3,4)
  by (simp add: controller_route [OF assms(1,2)] validate_budget_no_days)

text \<open>
  Claim C8, as the code has it.  A blank destination ends the call before anything
  else happens.  A budget, day count or traveler count that is missing or that
  \<open>int\<close> rejects is not an error: the defaults 10000000, 3 and 2 take its place,
  and a number that \<open>int\<close> accepts is taken as it is, whatever its sign.  When the
  workflow is invoked, the destination is there, the transport cost has been
  computed, the budget is at least the transport cost plus 450000 per day and
  traveler, the day count is not 0, the budget left after the transport divided by
  the day count fits a float, and the RAG agent has answered; the workflow gets the
  destination, the three numbers and the interests.  Conversely these conditions,
  together with the numbers of the progress text being writable in decimal, make the
  controller invoke the workflow.  A budget below the minimum ends the call without
  the workflow, with the page for an insufficient budget or, when a computation on
  the way raises, with the error page; a day count of 0 with a budget that covers the
  transport ends it with the error page of the division by zero.
\<close>

theorem controller_validation:
  "(blank (str_strip py) den \<longrightarrow>
      tao_ke_hoach_du_lich py aliases distances route rag di den ns sn sng st
        = MissingDestination)
 \<and> (\<forall>d b n t i.
      tao_ke_hoach_du_lich py aliases distances route rag di den ns sn sng st
        = WorkflowInvoked d b n t i \<longrightarrow>
      \<not> blank (str_strip py) den \<and> d = den
      \<and> b = budget_of (str_strip py) (int_of_str py) ns
      \<and> n = days_of (str_strip py) (int_of_str py) sn
      \<and> t = travelers_of (str_strip py) (int_of_str py) sng
      \<and> i = st \<and> n \<noteq> 0 \<and> rag = None
      \<and> (\<exists>info. calculate_transport_cost (str_strip py) (str_lower py) aliases distances route
                    (if blank (str_strip py) di then den else di) den t = Inr info
                 \<and> min_cost info + 450000 * n * t \<le> b
                 \<and> \<not> float_too_large py (b - min_cost info) n))
 \<and> (\<not> blank (str_strip py) den
      \<and> calculate_transport_cost (str_strip py) (str_lower py) aliases distances route
            (if blank (str_strip py) di then den else di) den
            (travelers_of (str_strip py) (int_of_str py) sng) = Inr info
      \<and> min_cost info + 450000 * days_of (str_strip py) (int_of_str py) sn
            * travelers_of (str_strip py) (int_of_str py) sng
          \<le> budget_of (str_strip py) (int_of_str py) ns
      \<and> days_of (str_strip py) (int_of_str py) sn \<noteq> 0
      \<and> \<not> float_too_large py (budget_of (str_strip py) (int_of_str py) ns - min_cost info)
              (days_of (str_strip py) (int_of_str py) sn)
      \<and> format_error (int_str_error py)
            [budget_of (str_strip py) (int_of_str py) ns,
             days_of (str_strip py) (int_of_str py) sn,
             travelers_of (str_strip py) (int_of_str py) sng,
             distance info, min_cost info, min_cost info,
             budget_of (str_strip py) (int_of_str py) ns - min_cost info] = None
      \<and> rag = None \<longrightarrow>
      tao_ke_hoach_du_lich py aliases distances route rag di den ns sn sng st
        = WorkflowInvoked den (budget_of (str_strip py) (int_of_str py) ns)
            (days_of (str_strip py) (int_of_str py) sn)
            (travelers_of (str_strip py) (int_of_str py) sng) st)
 \<and> (\<not> blank (str_strip py) den
      \<and> calculate_transport_cost (str_strip py) (str_lower py) aliases distances route
            (if blank (str_strip py) di then den else di) den
            (travelers_of (str_strip py) (int_of_str py) sng) = Inr info
      \<and> budget_of (str_strip py) (int_of_str py) ns
          < min_cost info + 450000 * days_of (str_strip py) (int_of_str py) sn
              * travelers_of (str_strip py) (int_of_str py) sng \<longrightarrow>
      (\<exists>e. tao_ke_hoach_du_lich py aliases distances route rag di den ns sn sng st
             = ErrorPage e)
      \<or> tao_ke_hoach_du_lich py aliases distances route rag di den ns sn sng st
          = InsufficientBudget
              (min_cost info + 450000 * days_of (str_strip py) (int_of_str py) sn
                 * travelers_of (str_strip py) (int_of_str py) sng
               - budget_of (str_strip py) (int_of_str py) ns))
 \<and> (\<not> blank (str_strip py) den
      \<and> calculate_transport_cost (str_strip py) (str_lower py) aliases distances route
            (if blank (str_strip py) di then den else di) den
            (travelers_of (str_strip py) (int_of_str py) sng) = Inr info
      \<and> budget_of (str_strip py) (int_of_str py) ns
          < min_cost info + 450000 * days_of (str_strip py) (int_of_str py) sn
              * travelers_of (str_strip py) (int_of_str py) sng
      \<and> (budget_of (str_strip py) (int_of_str py) ns \<le> min_cost info
          \<or> days_of (str_strip py) (int_of_str py) sn \<noteq> 0
            \<and> \<not> float_too_large py (budget_of (str_strip py) (int_of_str py) ns - min_cost info)
                  (days_of (str_strip py) (int_of_str py) sn))
      \<and> (\<forall>k. int_str_error py k = None) \<longrightarrow>
      tao_ke_hoach_du_lich py aliases distances route rag di den ns sn sng st
        = InsufficientBudget
            (min_cost info + 450000 * days_of (str_strip py) (int_of_str py) sn
               * travelers_of (str_strip py) (int_of_str py) sng
             - budget_of (str_strip py) (int_of_str py) ns))
 \<and> (\<not> blank (str_strip py) den
      \<and> calculate_transport_cost (str_strip py) (str_lower py) aliases distances route
            (if blank (str_strip py) di then den else di) den
            (travelers_of (str_strip py) (int_of_str py) sng) = Inr info
      \<and> min_cost info \<le> budget_of (str_strip py) (int_of_str py) ns
      \<and> days_of (str_strip py) (int_of_str py) sn = 0 \<longrightarrow>
      tao_ke_hoach_du_lich py aliases distances route rag di den ns sn sng st
        = ErrorPage ''division by zero'')
 \<and> budget_of (str_strip py) (int_of_str py) [] = 10000000
 \<and> days_of (str_strip py) (int_of_str py) [] = 3
 \<and> travelers_of (str_strip py) (int_of_str py) [] = 2
 \<and> (int_of_str py (str_strip py (filter (\<lambda>c. c \<noteq> CHR ''.'') (filter (\<lambda>c. c \<noteq> CHR '','') ns)))
       = None \<longrightarrow> budget_of (str_strip py) (int_of_str py) ns = 10000000)
 \<and> (int_of_str py (str_strip py sn) = None \<longrightarrow> days_of (str_strip py) (int_of_str py) sn = 3)
 \<and> (int_of_str py (str_strip py sng) = None \<longrightarrow>
       travelers_of (str_strip py) (int_of_str py) sng = 2)
 \<and> (\<forall>v. ns \<noteq> []
         \<and> int_of_str py (str_strip py (filter (\<lambda>c. c \<noteq> CHR ''.'')
                                           (filter (\<lambda>c. c \<noteq> CHR '','') ns))) = Some v \<longrightarrow>
       budget_of (str_strip py) (int_of_str py) ns = v)
 \<and> (\<forall>v. sn \<noteq> [] \<and> int_of_str py (str_strip py sn) = Some v \<longrightarrow>
       days_of (str_strip py) (int_of_str py) sn = v)
 \<and> (\<forall>v. sng \<noteq> [] \<and> int_of_str py (str_strip py sng) = Some v \<longrightarrow>
       travelers_of (str_strip py) (int_of_str py) sng = v)"
proof -
  let ?out = "tao_ke_hoach_du_lich py aliases distances route rag di den ns sn sng st"
  let ?B = "budget_of (str_strip py) (int_of_str py) ns"
  let ?N = "days_of (str_strip py) (int_of_str py) sn"
  let ?T = "travelers_of (str_strip py) (int_of_str py) sng"
  let ?calc = "calculate_transport_cost (str_strip py) (str_lower py) aliases distances route
                 (if blank (str_strip py) di then den else di) den ?T"
  have a: "blank (str_strip py) den \<longrightarrow> ?out = MissingDestination"
    by (simp add: controller_blank)
  have b: "\<forall>d b n t i. ?out = WorkflowInvoked d b n t i \<longrightarrow>
      \<not> blank (str_strip py) den \<and> d = den \<and> b = ?B \<and> n = ?N \<and> t = ?T
      \<and> i = st \<and> n \<noteq> 0 \<and> rag = None
      \<and> (\<exists>info. calculate_transport_cost (str_strip py) (str_lower py) aliases distances route
                    (if blank (str_strip py) di then den else di) den t = Inr info
                 \<and> min_cost info + 450000 * n * t \<le> b
                 \<and> \<not> float_too_large py (b - min_cost info) n)"
    using controller_invoked [of py aliases distances route rag di den ns sn sng st] by blast
  have c: "\<not> blank (str_strip py) den \<and> ?calc = Inr info
      \<and> min_cost info + 450000 * ?N * ?T \<le> ?B \<and> ?N \<noteq> 0
      \<and> \<not> float_too_large py (?B - min_cost info) ?N
      \<and> format_error (int_str_error py)
            [?B, ?N, ?T, distance info, min_cost info, min_cost info, ?B - min_cost info] = None
      \<and> rag = None \<longrightarrow>
      ?out = WorkflowInvoked den ?B ?N ?T st"
    using controller_invokes [of py den aliases distances route di sng info sn ns rag st]
    by blast
  have d: "\<not> blank (str_strip py) den \<and> ?calc = Inr info
      \<and> ?B < min_cost info + 450000 * ?N * ?T \<longrightarrow>
      (\<exists>e. ?out = ErrorPage e)
      \<or> ?out = InsufficientBudget (min_cost info + 450000 * ?N * ?T - ?B)"
    using controller_insufficient [of py den aliases distances route di sng info ns sn rag st]
    by blast
  have e: "\<not> blank (str_strip py) den \<and> ?calc = Inr info
      \<and> ?B < min_cost info + 450000 * ?N * ?T
      \<and> (?B \<le> min_cost info \<or> ?N \<noteq> 0 \<and> \<not> float_too_large py (?B - min_cost info) ?N)
      \<and> (\<forall>k. int_str_error py k = None) \<longrightarrow>
      ?out = InsufficientBudget (min_cost info + 450000 * ?N * ?T - ?B)"
    using controller_insufficient_page
      [of py den aliases distances route di sng info ns sn rag st]
    by blast
  have f: "\<not> blank (str_strip py) den \<and> ?calc = Inr info
      \<and> min_cost info \<le> ?B \<and> ?N = 0 \<longrightarrow> ?out = ErrorPage ''division by zero''"
    using controller_no_days [of py den aliases distances route di sng info ns sn rag st]
    by blast
  have g: "budget_of (str_strip py) (int_of_str py) [] = 10000000"
    "days_of (str_strip py) (int_of_str py) [] = 3"
    "travelers_of (str_strip py) (int_of_str py) [] = 2"
    by (simp_all add: budget_of_def days_of_def travelers_of_def)
  have h: "int_of_str py (str_strip py (filter (\<lambda>c. c \<noteq> CHR ''.'') (filter (\<lambda>c. c \<noteq> CHR '','') ns)))
       = None \<longrightarrow> ?B = 10000000"
    "int_of_str py (str_strip py sn) = None \<longrightarrow> ?N = 3"
    "int_of_str py (str_strip py sng) = None \<longrightarrow> ?T = 2"
    by (simp_all add: budget_of_def days_of_def travelers_of_def)
  have i: "\<forall>v. ns \<noteq> []
         \<and> int_of_str py (str_strip py (filter (\<lambda>c. c \<noteq> CHR ''.'')
                                           (filter (\<lambda>c. c \<noteq> CHR '','') ns))) = Some v \<longrightarrow>
       ?B = v"
    "\<forall>v. sn \<noteq> [] \<and> int_of_str py (str_strip py sn) = Some v \<longrightarrow> ?N = v"
    "\<forall>v. sng \<noteq> [] \<and> int_of_str py (str_strip py sng) = Some v \<longrightarrow> ?T = v"
    by (simp_all add: budget_of_def days_of_def travelers_of_def)
  show ?thesis
    apply (intro conjI)
    using a apply blast
    using b apply blast
    using c apply blast
    using d apply blast
    using e apply blast
    using f apply blast
    using g(1) apply blast
    using g(2) apply blast
    using g(3) apply blast
    using h(1) apply blast
    using h(2) apply blast
    using h(3) apply blast
    using i(1) apply blast
    using i(2) apply blast
    using i(3) apply blast
    done
qed

lemmas text_defs = ascii_int_def ascii_strip_def is_space_def is_digit_def digit_value_def
  blank_def budget_of_def days_of_def travelers_of_def

lemma ascii_builtins_fields:
  "str_strip (ascii_builtins\<lparr>str_lower := lower\<rparr>) = ascii_strip"
  "int_of_str (ascii_builtins\<lparr>str_lower := lower\<rparr>) = ascii_int"
  "float_too_large (ascii_builtins\<lparr>str_lower := lower\<rparr>) = (\<lambda>a b. False)"
  "int_str_error (ascii_builtins\<lparr>str_lower := lower\<rparr>) = (\<lambda>n. None)"
  "str_strip ascii_builtins = ascii_strip"
  "str_lower ascii_builtins = (\<lambda>s. s)"
  "int_of_str ascii_builtins = ascii_int"
  "float_too_large ascii_builtins = (\<lambda>a b. False)"
  "int_str_error ascii_builtins = (\<lambda>n. None)"
  by (simp_all add: ascii_builtins_def)

lemma ascii_numbers:
  "budget_of ascii_strip ascii_int ''10.000.000'' = 10000000"
  "budget_of ascii_strip ascii_int ''10000000'' = 10000000"
  "budget_of ascii_strip ascii_int ''0'' = 0"
  "budget_of ascii_strip ascii_int '''' = 10000000"
  "days_of ascii_strip ascii_int ''3'' = 3"
  "days_of ascii_strip ascii_int ''0'' = 0"
  "days_of ascii_strip ascii_int ''abc'' = 3"
  "days_of ascii_strip ascii_int ''-2'' = - 2"
  "days_of ascii_strip ascii_int '''' = 3"
  "travelers_of ascii_strip ascii_int ''2'' = 2"
  "travelers_of ascii_strip ascii_int ''0'' = 0"
  "travelers_of ascii_strip ascii_int ''abc'' = 2"
  "travelers_of ascii_strip ascii_int '''' = 2"
  "blank ascii_strip ''''" "\<not> blank ascii_strip ''Hue''" "blank ascii_strip ''  ''"
  "ascii_int (ascii_strip ''abc'') = None" "ascii_int (ascii_strip ''-2'') = Some (- 2)"
  "ascii_int ''abc'' = None" "ascii_int ''0'' = Some 0" "ascii_int ''-2'' = Some (- 2)"
  by (simp_all add: text_defs)

lemma format_error_ascii: "format_error (\<lambda>n. None) ks = None"
  by (induction ks) (simp_all add: format_error_def)

lemma local_trip_examples:
  "tao_ke_hoach_du_lich (ascii_builtins\<lparr>str_lower := lower\<rparr>) aliases distances route None
     '''' ''Hue'' ''10000000'' ''abc'' ''0'' '''' = WorkflowInvoked ''Hue'' 10000000 3 0 ''''"
  "tao_ke_hoach_du_lich (ascii_builtins\<lparr>str_lower := lower\<rparr>) aliases distances route None
     '''' ''Hue'' '''' '''' '''' '''' = WorkflowInvoked ''Hue'' 10000000 3 2 ''''"
  "tao_ke_hoach_du_lich (ascii_builtins\<lparr>str_lower := lower\<rparr>) aliases distances route None
     '''' ''Hue'' ''10.000.000'' ''-2'' ''2'' ''food''
     = WorkflowInvoked ''Hue'' 10000000 (- 2) 2 ''food''"
proof -
  let ?py = "ascii_builtins\<lparr>str_lower := lower\<rparr>"
  have nb: "\<not> blank (str_strip ?py) ''Hue''"
    by (simp add: ascii_builtins_fields ascii_numbers)
  have calc: "calculate_transport_cost (str_strip ?py) (str_lower ?py) aliases distances route
        (if blank (str_strip ?py) '''' then ''Hue'' else '''') ''Hue''
        (travelers_of (str_strip ?py) (int_of_str ?py) sng)
      = Inr \<lparr>distance = 0, min_cost = 7000 * travelers_of ascii_strip ascii_int sng * 4,
             option_costs = [7000 * travelers_of ascii_strip ascii_int sng * 4,
                             30000 * travelers_of ascii_strip ascii_int sng * 3,
                             50000 * travelers_of ascii_strip ascii_int sng * 3]\<rparr>" for sng
    by (simp add: ascii_builtins_fields ascii_numbers same_city_cost)
  show "tao_ke_hoach_du_lich ?py aliases distances route None
     '''' ''Hue'' ''10000000'' ''abc'' ''0'' '''' = WorkflowInvoked ''Hue'' 10000000 3 0 ''''"
    using controller_invokes [OF nb calc [of "''0''"], where sn = "''abc''" and ns = "''10000000''"
        and rag = None and st = "''''"]
    by (simp add: ascii_builtins_fields ascii_numbers format_error_ascii)
  show "tao_ke_hoach_du_lich ?py aliases distances route None
     '''' ''Hue'' '''' '''' '''' '''' = WorkflowInvoked ''Hue'' 10000000 3 2 ''''"
    using controller_invokes [OF nb calc [of "''''"], where sn = "''''" and ns = "''''"
        and rag = None and st = "''''"]
    by (simp add: ascii_builtins_fields ascii_numbers format_error_ascii)
  show "tao_ke_hoach_du_lich ?py aliases distances route None
     '''' ''Hue'' ''10.000.000'' ''-2'' ''2'' ''food''
     = WorkflowInvoked ''Hue'' 10000000 (- 2) 2 ''food''"
    using controller_invokes [OF nb calc [of "''2''"], where sn = "''-2''" and ns = "''10.000.000''"
        and rag = None and st = "''food''"]
    by (simp add: ascii_builtins_fields ascii_numbers format_error_ascii)
qed

theorem controller_validation_witness:
  "blank ascii_strip ''  ''
 \<and> plan_trip ''Hue'' ''  '' ''10000000'' ''3'' ''2'' ''food'' = MissingDestination
 \<and> \<not> blank ascii_strip ''Hue''
 \<and> budget_of ascii_strip ascii_int ''10.000.000'' = 10000000
 \<and> days_of ascii_strip ascii_int ''3'' = 3 \<and> travelers_of ascii_strip ascii_int ''2'' = 2
 \<and> plan_trip '''' ''Hue'' ''10.000.000'' ''3'' ''2'' ''food''
     = WorkflowInvoked ''Hue'' 10000000 3 2 ''food''
 \<and> budget_of ascii_strip ascii_int ''0'' = 0
 \<and> plan_trip '''' ''Hue'' ''0'' ''3'' ''2'' ''food'' = InsufficientBudget 2756000
 \<and> days_of ascii_strip ascii_int ''0'' = 0
 \<and> plan_trip '''' ''Hue'' ''10000000'' ''0'' ''2'' ''food'' = ErrorPage ''division by zero''
 \<and> ascii_int (ascii_strip ''abc'') = None
 \<and> days_of ascii_strip ascii_int ''abc'' = 3 \<and> travelers_of ascii_strip ascii_int ''abc'' = 2
 \<and> ascii_int (ascii_strip ''-2'') = Some (- 2) \<and> days_of ascii_strip ascii_int ''-2'' = - 2"
proof -
  note inst = controller_validation
    [where py = ascii_builtins and aliases = Map.empty and distances = Map.empty
       and route = "\<lambda>d t. Inr (0, [])" and rag = None and di = "''''" and st = "''food''"
       and den = "''Hue''" and sng = "''2''"
       and info = "\<lparr>distance = 0, min_cost = 56000, option_costs = [56000, 180000, 300000]\<rparr>",
     unfolded ascii_builtins_fields]
  have cost: "calculate_transport_cost ascii_strip (\<lambda>s. s) Map.empty Map.empty (\<lambda>d t. Inr (0, []))
        (if blank ascii_strip '''' then ''Hue'' else '''') ''Hue''
        (travelers_of ascii_strip ascii_int ''2'')
      = Inr \<lparr>distance = 0, min_cost = 56000, option_costs = [56000, 180000, 300000]\<rparr>"
    by (simp add: ascii_numbers same_city_cost)
  have 1: "plan_trip ''Hue'' ''  '' ''10000000'' ''3'' ''2'' ''food'' = MissingDestination"
    using controller_validation
      [where py = ascii_builtins and aliases = Map.empty and distances = Map.empty
         and route = "\<lambda>d t. Inr (0, [])" and rag = None and di = "''Hue''" and den = "''  ''"
         and ns = "''10000000''" and sn = "''3''" and sng = "''2''" and st = "''food''",
       unfolded ascii_builtins_fields, THEN conjunct1]
      ascii_numbers
    by (simp add: plan_trip_def)
  have 2: "plan_trip '''' ''Hue'' ''10.000.000'' ''3'' ''2'' ''food''
      = WorkflowInvoked ''Hue'' 10000000 3 2 ''food''"
    using inst [where ns = "''10.000.000''" and sn = "''3''",
        THEN conjunct2, THEN conjunct2, THEN conjunct1] cost
    by (simp add: plan_trip_def ascii_numbers format_error_ascii)
  have 3: "plan_trip '''' ''Hue'' ''0'' ''3'' ''2'' ''food'' = InsufficientBudget 2756000"
    using inst [where ns = "''0''" and sn = "''3''",
        THEN conjunct2, THEN conjunct2, THEN conjunct2, THEN conjunct2, THEN conjunct1] cost
    by (simp add: plan_trip_def ascii_numbers)
  have 4: "plan_trip '''' ''Hue'' ''10000000'' ''0'' ''2'' ''food'' = ErrorPage ''division by zero''"
    using inst [where ns = "''10000000''" and sn = "''0''",
        THEN conjunct2, THEN conjunct2, THEN conjunct2, THEN conjunct2, THEN conjunct2,
        THEN conjunct1] cost
    by (simp add: plan_trip_def ascii_numbers)
  from 1 2 3 4 show ?thesis by (simp add: ascii_numbers)
qed

text \<open>
  Claim C8 fails.  A day count that is not a number and a traveler count of 0 do not
  stop the controller: the workflow is invoked with 3 days and 0 travelers.  With all
  three numeric fields missing it is invoked with the defaults, and a negative day
  count is passed on as it is.  This is so whatever the tables of cities and
  distances hold, since the trip stays in one city.
\<close>

theorem controller_accepts_non_positive_numbers:
  "ascii_int ''abc'' = None \<and> ascii_int ''0'' = Some 0 \<and> ascii_int ''-2'' = Some (- 2)
 \<and> (\<forall>lower aliases distances route.
       tao_ke_hoach_du_lich (ascii_builtins\<lparr>str_lower := lower\<rparr>) aliases distances route None
         '''' ''Hue'' ''10000000'' ''abc'' ''0'' '''' = WorkflowInvoked ''Hue'' 10000000 3 0 '''')
 \<and> (\<forall>lower aliases distances route.
       tao_ke_hoach_du_lich (ascii_builtins\<lparr>str_lower := lower\<rparr>) aliases distances route None
         '''' ''Hue'' '''' '''' '''' '''' = WorkflowInvoked ''Hue'' 10000000 3 2 '''')
 \<and> (\<forall>lower aliases distances route.
       tao_ke_hoach_du_lich (ascii_builtins\<lparr>str_lower := lower\<rparr>) aliases distances route None
         '''' ''Hue'' ''10.000.000'' ''-2'' ''2'' ''food''
         = WorkflowInvoked ''Hue'' 10000000 (- 2) 2 ''food'')
 \<and> plan_trip '''' ''Hue'' ''10000000'' ''abc'' ''0'' '''' = WorkflowInvoked ''Hue'' 10000000 3 0 ''''"
proof -
  have p: "plan_trip a b c d e f
      = tao_ke_hoach_du_lich (ascii_builtins\<lparr>str_lower := (\<lambda>s. s)\<rparr>)
          Map.empty Map.empty (\<lambda>d t. Inr (0, [])) None a b c d e f" for a b c d e f
    by (simp add: plan_trip_def ascii_builtins_def)
  show ?thesis
    by (simp add: p local_trip_examples ascii_numbers)
qed

end
